theory Spec2Isabelle
  imports Complex_Main
begin

section \<open>Exceptions, transmission outcomes and the observable world\<close>

text \<open>
  The exceptions of the modelled code. Every value stands for an instance of Python's
  \<open>Exception\<close>: \<open>PacketSenderError\<close> is the controller's own class, \<open>SocketError\<close> is
  \<open>socket.error\<close> (the class named by the \<open>except\<close> clauses of \<open>send_ntimes\<close> and
  \<open>send_receive_ntimes\<close>), \<open>KeyError\<close> is a failed dictionary lookup and
  \<open>OtherException\<close> is any other instance (\<open>ValueError\<close>, \<open>AttributeError\<close>, ...).
  The string is the message the exception was made with (for \<open>KeyError\<close> the key);
  \<open>py_str\<close> is Python's \<open>str()\<close> of the exception.
\<close>

datatype py_exception =
    PacketSenderError string
  | SocketError string
  | KeyError string
  | OtherException string

fun is_socket_error :: "py_exception \<Rightarrow> bool" where
  "is_socket_error (SocketError m) = True"
| "is_socket_error e = False"

fun py_str :: "py_exception \<Rightarrow> string" where
  "py_str (PacketSenderError m) = m"
| "py_str (SocketError m) = m"
| "py_str (KeyError m) = CHR 0x27 # m @ [CHR 0x27]"
| "py_str (OtherException m) = m"

text \<open>
  What a call of an external primitive (\<open>scapy.sendp\<close>, \<open>scapy.srp1\<close>, \<open>time.sleep\<close>)
  does: it completes, or it raises. The environment decides; \<open>time.sleep\<close> raising
  \<open>ValueError\<close> on a negative interval is one of the raising outcomes.
\<close>

datatype io_result = Done | Raised py_exception

text \<open>A frame handed to the network: by \<open>sendp\<close>, or by \<open>srp1\<close> with its reply timeout.\<close>

datatype 'p tx = Sendp string 'p | Srp1 string 'p real

datatype log_level = INFO | WARNING | ERROR

type_synonym ref = nat

text \<open>
  The control point of a worker process (\<open>ThreadSendPacket\<close>): created but not started,
  started (before the first statement of \<open>run\<close>), at the top of the loop, about to
  transmit, about to sleep, returned after the stop signal, returned from the exception
  handler, or killed by \<open>terminate()\<close>.
\<close>

datatype pc = NotStarted | Started | AtPoll | AtSend | AtSleep | Stopped | Failed | Terminated

text \<open>
  Everything outside the sender object: the flags of the \<open>multiprocessing.Event\<close>
  objects and the control points of the worker processes (both by address), the next
  free address, the frames transmitted so far and the log (both oldest first).
\<close>

record 'p world =
  events :: "ref \<Rightarrow> bool"
  procs :: "ref \<Rightarrow> pc"
  fresh :: ref
  wire :: "'p tx list"
  logs :: "(log_level \<times> string) list"

definition log_msg :: "log_level \<Rightarrow> string \<Rightarrow> 'p world \<Rightarrow> 'p world" where
  "log_msg lv m w = w\<lparr>logs := logs w @ [(lv, m)]\<rparr>"

definition transmit :: "'p tx \<Rightarrow> 'p world \<Rightarrow> 'p world" where
  "transmit f w = w\<lparr>wire := wire w @ [f]\<rparr>"

section \<open>ThreadSendPacket: the background worker\<close>

text \<open>
  The fields \<open>__init__\<close> stores (the shared stop signal is a reference to the sender's
  event), and the address of the process that runs the object.
\<close>

record 'p ThreadSendPacket =
  t_stop_signal :: ref
  t_packet :: 'p
  t_interval :: real
  t_interface :: string
  t_pid :: ref

definition is_alive :: "'p ThreadSendPacket \<Rightarrow> 'p world \<Rightarrow> bool" where
  "is_alive t w = (procs w (t_pid t) \<in> {Started, AtPoll, AtSend, AtSleep})"

definition set_pc :: "'p ThreadSendPacket \<Rightarrow> pc \<Rightarrow> 'p world \<Rightarrow> 'p world" where
  "set_pc t c w = w\<lparr>procs := (procs w)(t_pid t := c)\<rparr>"

text \<open>
  One step of \<open>ThreadSendPacket.run\<close>. The \<open>io_result\<close> is what the environment makes of
  the primitive called in this step (it is not looked at when the step calls none).
  \<open>None\<close>: the process has no step (it has not been started, or it has exited).
  The handler is \<open>except Exception\<close>: it takes every \<open>py_exception\<close>.
\<close>

definition worker_step :: "io_result \<Rightarrow> 'p ThreadSendPacket \<Rightarrow> 'p world \<Rightarrow> 'p world option" where
  "worker_step r t w =
     (case procs w (t_pid t) of
        Started \<Rightarrow> Some (set_pc t AtPoll (log_msg INFO ''Packet Sending Started.'' w))
      | AtPoll \<Rightarrow>
          (if events w (t_stop_signal t)
           then Some (set_pc t Stopped (log_msg INFO ''Packet Sending Stopped.'' w))
           else Some (set_pc t AtSend w))
      | AtSend \<Rightarrow>
          (case r of
             Done \<Rightarrow> Some (set_pc t AtSleep (transmit (Sendp (t_interface t) (t_packet t)) w))
           | Raised e \<Rightarrow>
               Some (set_pc t Failed (log_msg ERROR ''Exception when trying to send packet'' w)))
      | AtSleep \<Rightarrow>
          (case r of
             Done \<Rightarrow> Some (set_pc t AtPoll w)
           | Raised e \<Rightarrow>
               Some (set_pc t Failed (log_msg ERROR ''Exception when trying to send packet'' w)))
      | NotStarted \<Rightarrow> None
      | Stopped \<Rightarrow> None
      | Failed \<Rightarrow> None
      | Terminated \<Rightarrow> None)"

text \<open>The worker running on its own for as many steps as there are outcomes.\<close>

fun worker_run :: "io_result list \<Rightarrow> 'p ThreadSendPacket \<Rightarrow> 'p world \<Rightarrow> 'p world" where
  "worker_run [] t w = w"
| "worker_run (r # rs) t w =
     (case worker_step r t w of None \<Rightarrow> w | Some w' \<Rightarrow> worker_run rs t w')"

text \<open>
  \<open>Process.join()\<close> with no timeout: the caller waits until the process has exited, the
  worker taking its steps meanwhile. \<open>None\<close>: the wait never ends.
\<close>

partial_function (option) join :: "(nat \<Rightarrow> io_result) \<Rightarrow> 'p ThreadSendPacket \<Rightarrow> 'p world \<Rightarrow> 'p world option" where
  "join E t w =
     (case worker_step (E 0) t w of
        None \<Rightarrow> Some w
      | Some w' \<Rightarrow> join (\<lambda>i. E (Suc i)) t w')"

section \<open>PacketSender\<close>

record 'p PacketSender =
  packet :: "'p option"
  thread_active :: bool
  thread_send :: "'p ThreadSendPacket option"
  stop_signal :: ref
  interface :: string

type_synonym 'p state = "'p PacketSender \<times> 'p world"

definition PacketSender_init :: "string \<Rightarrow> 'p world \<Rightarrow> 'p state" where
  "PacketSender_init ifname w =
     (\<lparr>packet = None, thread_active = False, thread_send = None,
       stop_signal = fresh w, interface = ifname\<rparr>,
      w\<lparr>events := (events w)(fresh w := False), fresh := Suc (fresh w)\<rparr>)"

text \<open>How one pass through the body of a \<open>for\<close> loop ends.\<close>

datatype flow = Next | Return | Raise py_exception

text \<open>\<open>except socket.error as excpt: self.log.exception(...); return\<close>\<close>

definition except_socket_error :: "py_exception \<Rightarrow> 'p world \<Rightarrow> flow \<times> 'p world" where
  "except_socket_error e w =
     (if is_socket_error e
      then (Return, log_msg ERROR (''Caught socket exception : '' @ py_str e) w)
      else (Raise e, w))"

text \<open>
  The \<open>try\<close> block of both loops: the transmission primitive, then \<open>time.sleep\<close>. A
  primitive that raises has not put the frame on the wire.
\<close>

definition send_body :: "io_result \<times> io_result \<Rightarrow> 'p tx \<Rightarrow> 'p world \<Rightarrow> flow \<times> 'p world" where
  "send_body r f w =
     (case fst r of
        Raised e \<Rightarrow> except_socket_error e w
      | Done \<Rightarrow>
          (case snd r of
             Raised e \<Rightarrow> except_socket_error e (transmit f w)
           | Done \<Rightarrow> (Next, transmit f w)))"

text \<open>
  \<open>for _ in range(ntimes)\<close>: the environment gives, for each pass, the outcome of the
  transmission and of the sleep.
\<close>

fun send_loop :: "(nat \<Rightarrow> io_result \<times> io_result) \<Rightarrow> 'p tx \<Rightarrow> nat \<Rightarrow> 'p world \<Rightarrow> (py_exception + unit) \<times> 'p world" where
  "send_loop E f 0 w = (Inr (), w)"
| "send_loop E f (Suc n) w =
     (case send_body (E 0) f w of
        (Next, w') \<Rightarrow> send_loop (\<lambda>i. E (Suc i)) f n w'
      | (Return, w') \<Rightarrow> (Inr (), w')
      | (Raise e, w') \<Rightarrow> (Inl e, w'))"

definition send_ntimes :: "(nat \<Rightarrow> io_result \<times> io_result) \<Rightarrow> 'p option \<Rightarrow> int \<Rightarrow> real \<Rightarrow> 'p state \<Rightarrow> (py_exception + unit) \<times> 'p state" where
  "send_ntimes E pkt ntimes interval \<sigma> =
     (case pkt of
        None \<Rightarrow> (Inl (PacketSenderError ''There is no packet to send. Create a packet first.''), \<sigma>)
      | Some p \<Rightarrow>
          (case send_loop E (Sendp (interface (fst \<sigma>)) p) (nat ntimes) (snd \<sigma>) of
             (r, w') \<Rightarrow> (r, (fst \<sigma>, w'))))"

definition send_receive_ntimes :: "(nat \<Rightarrow> io_result \<times> io_result) \<Rightarrow> 'p option \<Rightarrow> int \<Rightarrow> real \<Rightarrow> 'p state \<Rightarrow> (py_exception + unit) \<times> 'p state" where
  "send_receive_ntimes E pkt ntimes interval \<sigma> =
     (case pkt of
        None \<Rightarrow> (Inl (PacketSenderError ''There is no packet to send. Create a packet first.''), \<sigma>)
      | Some p \<Rightarrow>
          (case send_loop E (Srp1 (interface (fst \<sigma>)) p interval) (nat ntimes) (snd \<sigma>) of
             (r, w') \<Rightarrow> (r, (fst \<sigma>, w'))))"

text \<open>
  \<open>start_sending\<close>: the constructor of the worker (a new process, not started), then
  \<open>start()\<close>, then the flag.
\<close>

definition start_sending :: "'p option \<Rightarrow> real \<Rightarrow> 'p state \<Rightarrow> (py_exception + unit) \<times> 'p state" where
  "start_sending pkt interval \<sigma> =
     (case pkt of
        None \<Rightarrow> (Inl (PacketSenderError ''There is no packet to send. Create a packet first.''), \<sigma>)
      | Some p \<Rightarrow>
          (if thread_active (fst \<sigma>)
           then (Inl (PacketSenderError
                   ''There is already an active thread. Stop itbefore starting another transmission.''), \<sigma>)
           else
             (let s = fst \<sigma>; w = snd \<sigma>;
                  t = \<lparr>t_stop_signal = stop_signal s, t_packet = p, t_interval = interval,
                       t_interface = interface s, t_pid = fresh w\<rparr>;
                  w1 = w\<lparr>procs := (procs w)(fresh w := NotStarted), fresh := Suc (fresh w)\<rparr>;
                  w2 = set_pc t Started w1
              in (Inr (), (s\<lparr>thread_send := Some t, thread_active := True\<rparr>, w2)))))"

text \<open>
  \<open>stop_sending\<close>. \<open>self.thread_send.join()\<close> on \<open>None\<close> is an \<open>AttributeError\<close>, on a
  process that was never started an \<open>AssertionError\<close>; both leave the signal set.
  \<open>None\<close>: \<open>join\<close> never returns.
\<close>

definition stop_sending :: "(nat \<Rightarrow> io_result) \<Rightarrow> bool \<Rightarrow> 'p state \<Rightarrow> ((py_exception + unit) \<times> 'p state) option" where
  "stop_sending E ignore_status \<sigma> =
     (let s = fst \<sigma>; w = snd \<sigma> in
      if \<not> thread_active s then
        (if ignore_status then Some (Inr (), \<sigma>)
         else Some (Inl (PacketSenderError ''Error: There is no acive thread running to stop.''), \<sigma>))
      else
        (let w1 = w\<lparr>events := (events w)(stop_signal s := True)\<rparr> in
         case thread_send s of
           None \<Rightarrow> Some (Inl (OtherException ''AttributeError''), (s, w1))
         | Some t \<Rightarrow>
             (if procs w1 (t_pid t) = NotStarted
              then Some (Inl (OtherException ''AssertionError''), (s, w1))
              else
                (case join E t w1 of
                   None \<Rightarrow> None
                 | Some w2 \<Rightarrow>
                     (let w3 = (if is_alive t w2
                                then log_msg WARNING ''Packet Sending forced to terminate''
                                       (set_pc t Terminated w2)
                                else w2);
                          w4 = w3\<lparr>events := (events w3)(stop_signal s := False)\<rparr>
                      in Some (Inr (), (s\<lparr>thread_send := None, thread_active := False\<rparr>, w4)))))))"

text \<open>
  How a loop ends when its pass number \<open>k\<close> raises \<open>e\<close>: the handler of
  \<open>except_socket_error\<close>, seen from the caller of the method.
\<close>

definition after_raise :: "py_exception \<Rightarrow> 'p world \<Rightarrow> (py_exception + unit) \<times> 'p world" where
  "after_raise e w = (if is_socket_error e
      then (Inr (), log_msg ERROR (''Caught socket exception : '' @ py_str e) w)
      else (Inl e, w))"

text \<open>
  The sender's worker (if it has one) taking steps while the caller does nothing. The
  worker is another process: it reaches the world, never the fields of the sender.
\<close>

definition background_run :: "io_result list \<Rightarrow> 'p state \<Rightarrow> 'p state" where
  "background_run rs \<sigma> =
     (case thread_send (fst \<sigma>) of
        None \<Rightarrow> \<sigma>
      | Some t \<Rightarrow> (fst \<sigma>, worker_run rs t (snd \<sigma>)))"

subsection \<open>Concrete states for the examples\<close>

definition empty_world :: "'p world" where
  "empty_world = \<lparr>events = (\<lambda>a. False), procs = (\<lambda>a. NotStarted), fresh = 0, wire = [], logs = []\<rparr>"

definition idle_state :: "string state" where
  "idle_state = PacketSender_init ''eth0'' empty_world"

definition example_worker :: "string ThreadSendPacket" where
  "example_worker = \<lparr>t_stop_signal = 0, t_packet = ''pkt'', t_interval = 1,
     t_interface = ''eth0'', t_pid = 1\<rparr>"

definition example_world :: "bool \<Rightarrow> pc \<Rightarrow> string world" where
  "example_world sig c = \<lparr>events = (\<lambda>a. sig), procs = (\<lambda>a. c), fresh = 2, wire = [], logs = []\<rparr>"

definition active_sender :: "string PacketSender" where
  "active_sender = \<lparr>packet = None, thread_active = True, thread_send = Some example_worker,
     stop_signal = 0, interface = ''eth0''\<rparr>"

section \<open>Packet generators\<close>

text \<open>
  Python values as the generators handle them. A packet is what the calls of the scapy
  constructors describe: its layers, outermost first (scapy's \<open>/\<close> is the concatenation),
  each the class name and the keyword arguments in the order written. A layer given as an
  argument of another (\<open>DNS(qd=...)\<close>) is a packet value. What scapy makes of a layer
  (defaults, checksums, the bytes on the wire) is scapy's and is not modelled.
\<close>

datatype pyval =
    PyNone
  | PyBool bool
  | PyInt int
  | PyStr string
  | PyList "pyval list"
  | PyTuple "pyval list"
  | PyPacket "(string \<times> (string \<times> pyval) list) list"

type_synonym layer = "string \<times> (string \<times> pyval) list"
type_synonym pkt = "layer list"

definition GET_FROM_LOCAL_INTERFACE :: string where "GET_FROM_LOCAL_INTERFACE = ''get_local''"
definition MAC_BROADCAST :: string where "MAC_BROADCAST = ''ff:ff:ff:ff:ff:ff''"
definition IPV4_BROADCAST :: string where "IPV4_BROADCAST = ''255.255.255.255''"
definition ARP_DST :: string where "ARP_DST = ''00:00:00:00:00:00''"
definition RA_MAC :: string where "RA_MAC = ''33:33:00:00:00:01''"
definition RA_IP :: string where "RA_IP = ''ff02::1''"
definition RA_PREFIX :: string where "RA_PREFIX = ''d00d::''"
definition RA_PREFIX_LEN :: int where "RA_PREFIX_LEN = 64"
definition DHCP_OFFER_OP :: int where "DHCP_OFFER_OP = 2"
definition DHCP_OFFER_SRC_PORT :: int where "DHCP_OFFER_SRC_PORT = 67"
definition DHCP_OFFER_DST_PORT :: int where "DHCP_OFFER_DST_PORT = 68"
definition DHCP_TRANS_ID :: int where "DHCP_TRANS_ID = 16909060"
definition DNS_LEN :: int where "DNS_LEN = 3"
definition PING6_DATA :: string where "PING6_DATA = ''BEST PING6 EVER''"
definition PING4_TYPE :: int where "PING4_TYPE = 8"
definition MDNS_QTYPE :: string where "MDNS_QTYPE = ''PTR''"
definition MDNS_UDP_PORT :: int where "MDNS_UDP_PORT = 5353"
definition MDNS_V4_IP_DST :: string where "MDNS_V4_IP_DST = ''224.0.0.251''"
definition MDNS_V4_MAC_DST :: string where "MDNS_V4_MAC_DST = ''01:00:5E:00:00:FB''"
definition MDNS_RECURSIVE :: int where "MDNS_RECURSIVE = 1"
definition MDNS_V6_IP_DST :: string where "MDNS_V6_IP_DST = ''FF02::FB''"
definition MDNS_V6_MAC_DST :: string where "MDNS_V6_MAC_DST = ''33:33:00:00:00:FB''"
definition ETH_TYPE_IP :: int where "ETH_TYPE_IP = 2048"
definition SNAP_OUI :: int where "SNAP_OUI = 12"
definition SNAP_SSAP :: int where "SNAP_SSAP = 170"
definition SNAP_DSAP :: int where "SNAP_DSAP = 170"
definition SNAP_CTRL :: int where "SNAP_CTRL = 3"
definition LLC_XID_CONTROL :: int where "LLC_XID_CONTROL = 191"
definition PAD_LEN_BYTES :: nat where "PAD_LEN_BYTES = 128"

text \<open>
  The local interfaces, as scapy reports them: \<open>get_if_hwaddr\<close>, \<open>get_if_addr\<close> and the
  list \<open>in6_getifaddr()\<close> returns, of triples (address, type, interface).
\<close>

record iface_env =
  get_if_hwaddr :: "pyval \<Rightarrow> py_exception + pyval"
  get_if_addr :: "pyval \<Rightarrow> py_exception + pyval"
  in6_getifaddr :: "(pyval \<times> pyval \<times> pyval) list"

text \<open>
  The conversion functions of \<open>socket\<close> and scapy that \<open>generate\<close> calls (\<open>inet_pton\<close> and
  \<open>inet_ntop\<close> at \<open>AF_INET6\<close>): functions of their argument, which may raise.
\<close>

record conv_lib =
  inet_pton :: "pyval \<Rightarrow> py_exception + pyval"
  inet_ntop :: "pyval \<Rightarrow> py_exception + pyval"
  in6_getnsma :: "pyval \<Rightarrow> py_exception + pyval"
  in6_getnsmac :: "pyval \<Rightarrow> py_exception + pyval"
  mac2str :: "pyval \<Rightarrow> py_exception + pyval"

definition bindE :: "py_exception + 'a \<Rightarrow> ('a \<Rightarrow> py_exception + 'b) \<Rightarrow> py_exception + 'b" where
  "bindE m f = (case m of Inl e \<Rightarrow> Inl e | Inr v \<Rightarrow> f v)"

text \<open>\<open>config_params[key]\<close>\<close>

definition getitem :: "(string \<rightharpoonup> pyval) \<Rightarrow> string \<Rightarrow> py_exception + pyval" where
  "getitem config_params key =
     (case config_params key of None \<Rightarrow> Inl (KeyError key) | Some v \<Rightarrow> Inr v)"

text \<open>
  The pattern of every constructor:
  \<open>if config_params[key] == GET_FROM_LOCAL_INTERFACE: <local> else: config_params[key]\<close>
\<close>

definition config_or_local :: "(string \<rightharpoonup> pyval) \<Rightarrow> string \<Rightarrow> py_exception + pyval \<Rightarrow> py_exception + pyval" where
  "config_or_local config_params key local =
     bindE (getitem config_params key) (\<lambda>v.
       if v = PyStr GET_FROM_LOCAL_INTERFACE then local else getitem config_params key)"

fun get_if_addr6 :: "(pyval \<times> pyval \<times> pyval) list \<Rightarrow> pyval \<Rightarrow> pyval \<Rightarrow> pyval" where
  "get_if_addr6 [] intf address_type = PyNone"
| "get_if_addr6 (if_list # rest) intf address_type =
     (if snd (snd if_list) = intf \<and> fst (snd if_list) = address_type then fst if_list
      else get_if_addr6 rest intf address_type)"

text \<open>\<open>x if x is not None else d\<close>\<close>

definition or_default :: "pyval \<Rightarrow> pyval \<Rightarrow> pyval" where
  "or_default x d = (if x \<noteq> PyNone then x else d)"

subsection \<open>ArpGenerator\<close>

record ArpGenerator =
  arp_packet :: "pkt option"
  arp_src_mac :: pyval
  arp_dst_ipv4 :: pyval
  arp_src_ipv4 :: pyval

definition ArpGenerator_init :: "iface_env \<Rightarrow> (string \<rightharpoonup> pyval) \<Rightarrow> py_exception + ArpGenerator" where
  "ArpGenerator_init env config_params =
     bindE (getitem config_params ''interf'') (\<lambda>interf.
     bindE (config_or_local config_params ''src_mac'' (get_if_hwaddr env interf)) (\<lambda>src_mac.
     bindE (getitem config_params ''dst_ipv4'') (\<lambda>dst_ipv4.
     bindE (config_or_local config_params ''src_ipv4'' (get_if_addr env interf)) (\<lambda>src_ipv4.
     Inr \<lparr>arp_packet = None, arp_src_mac = src_mac, arp_dst_ipv4 = dst_ipv4,
          arp_src_ipv4 = src_ipv4\<rparr>))))"

definition ArpGenerator_generate :: "ArpGenerator \<Rightarrow> pyval \<Rightarrow> pyval \<Rightarrow> pyval \<Rightarrow> pyval \<Rightarrow> pyval \<Rightarrow> pyval \<Rightarrow> pkt \<times> ArpGenerator" where
  "ArpGenerator_generate self op ip_dst ip_src hwsrc hwdst eth_dst =
     (let hw_src = or_default hwsrc (arp_src_mac self);
          hw_dst = or_default hwdst (PyStr ARP_DST);
          ipv4_dst = or_default ip_dst (arp_dst_ipv4 self);
          ipv4_src = or_default ip_src (arp_src_ipv4 self);
          ip4 = [(''ARP'', [(''op'', op), (''pdst'', ipv4_dst), (''psrc'', ipv4_src),
                           (''hwdst'', hw_dst), (''hwsrc'', hw_src)])];
          mac_dst = or_default eth_dst (PyStr MAC_BROADCAST);
          ethernet = [(''Ether'', [(''src'', arp_src_mac self), (''dst'', mac_dst)])];
          p = ethernet @ ip4
      in (p, self\<lparr>arp_packet := Some p\<rparr>))"

subsection \<open>DhcpOfferGenerator\<close>

record DhcpOfferGenerator =
  dhcp_packet :: "pkt option"
  dhcp_subnet_mask :: pyval
  dhcp_dst_mac :: pyval
  dhcp_src_mac :: pyval
  dhcp_dst_ipv4 :: pyval
  dhcp_src_ipv4 :: pyval
  dhcp_gw_ipv4 :: pyval

definition DhcpOfferGenerator_init :: "iface_env \<Rightarrow> (string \<rightharpoonup> pyval) \<Rightarrow> py_exception + DhcpOfferGenerator" where
  "DhcpOfferGenerator_init env config_params =
     bindE (getitem config_params ''interf'') (\<lambda>interf.
     bindE (getitem config_params ''subnet_mask'') (\<lambda>subnet_mask.
     bindE (getitem config_params ''dst_mac'') (\<lambda>dst_mac.
     bindE (config_or_local config_params ''src_mac'' (get_if_hwaddr env interf)) (\<lambda>src_mac.
     bindE (getitem config_params ''dst_ipv4'') (\<lambda>dst_ipv4.
     bindE (config_or_local config_params ''src_ipv4'' (get_if_addr env interf)) (\<lambda>src_ipv4.
     bindE (getitem config_params ''gw_ipv4'') (\<lambda>gw_ipv4.
     Inr \<lparr>dhcp_packet = None, dhcp_subnet_mask = subnet_mask, dhcp_dst_mac = dst_mac,
          dhcp_src_mac = src_mac, dhcp_dst_ipv4 = dst_ipv4, dhcp_src_ipv4 = src_ipv4,
          dhcp_gw_ipv4 = gw_ipv4\<rparr>)))))))"

definition DhcpOfferGenerator_generate :: "conv_lib \<Rightarrow> DhcpOfferGenerator \<Rightarrow> pyval \<Rightarrow> pyval \<Rightarrow> py_exception + pkt \<times> DhcpOfferGenerator" where
  "DhcpOfferGenerator_generate lib self cha_mac dst_ip =
     (let dhcp = [(''DHCP'', [(''options'', PyList
                    [PyTuple [PyStr ''message-type'', PyStr ''offer''],
                     PyTuple [PyStr ''subnet_mask'', dhcp_subnet_mask self],
                     PyTuple [PyStr ''server_id'', dhcp_src_ipv4 self],
                     PyStr ''end''])])];
          sta_hw = or_default cha_mac (dhcp_dst_mac self);
          sta_ip = or_default dst_ip (dhcp_dst_ipv4 self)
      in bindE (mac2str lib sta_hw) (\<lambda>chaddr.
           let bootp = [(''BOOTP'', [(''op'', PyInt DHCP_OFFER_OP), (''yiaddr'', sta_ip),
                          (''siaddr'', dhcp_src_ipv4 self), (''giaddr'', dhcp_gw_ipv4 self),
                          (''chaddr'', chaddr), (''xid'', PyInt DHCP_TRANS_ID)])];
               udp = [(''UDP'', [(''sport'', PyInt DHCP_OFFER_SRC_PORT),
                                (''dport'', PyInt DHCP_OFFER_DST_PORT)])];
               ip4 = [(''IP'', [(''src'', dhcp_src_ipv4 self), (''dst'', PyStr IPV4_BROADCAST)])];
               ethernet = [(''Ether'', [(''dst'', PyStr MAC_BROADCAST), (''src'', dhcp_src_mac self)])];
               p = ethernet @ ip4 @ udp @ bootp @ dhcp
           in Inr (p, self\<lparr>dhcp_packet := Some p\<rparr>)))"

subsection \<open>NsGenerator\<close>

record NsGenerator =
  ns_packet :: "pkt option"
  ns_src_mac :: pyval
  ns_dst_ipv6 :: pyval
  ns_src_ipv6_type :: pyval
  ns_src_ipv6 :: pyval

definition NsGenerator_init :: "iface_env \<Rightarrow> (string \<rightharpoonup> pyval) \<Rightarrow> py_exception + NsGenerator" where
  "NsGenerator_init env config_params =
     bindE (getitem config_params ''interf'') (\<lambda>interf.
     bindE (config_or_local config_params ''src_mac'' (get_if_hwaddr env interf)) (\<lambda>src_mac.
     bindE (getitem config_params ''dst_ipv6'') (\<lambda>dst_ipv6.
     bindE (getitem config_params ''src_ipv6_type'') (\<lambda>src_ipv6_type.
     bindE (config_or_local config_params ''src_ipv6''
              (Inr (get_if_addr6 (in6_getifaddr env) interf src_ipv6_type))) (\<lambda>src_ipv6.
     Inr \<lparr>ns_packet = None, ns_src_mac = src_mac, ns_dst_ipv6 = dst_ipv6,
          ns_src_ipv6_type = src_ipv6_type, ns_src_ipv6 = src_ipv6\<rparr>)))))"

definition NsGenerator_generate :: "conv_lib \<Rightarrow> NsGenerator \<Rightarrow> pyval \<Rightarrow> pyval \<Rightarrow> py_exception + pkt \<times> NsGenerator" where
  "NsGenerator_generate lib self ip_dst eth_dst =
     (let target_ip6 = or_default ip_dst (ns_dst_ipv6 self) in
      bindE (inet_pton lib target_ip6) (\<lambda>ndst_ip.
      bindE (in6_getnsma lib ndst_ip) (\<lambda>nnode_mcast.
      bindE (inet_ntop lib nnode_mcast) (\<lambda>node_mcast.
      bindE (if eth_dst \<noteq> PyNone then Inr eth_dst else in6_getnsmac lib nnode_mcast) (\<lambda>hw_dst.
        let base = [(''IPv6'', [(''dst'', node_mcast), (''src'', ns_src_ipv6 self)])];
            neighbor_solicitation = [(''ICMPv6ND_NS'', [(''tgt'', target_ip6)])];
            src_ll_addr = [(''ICMPv6NDOptSrcLLAddr'', [(''lladdr'', ns_src_mac self)])];
            ip6 = base @ neighbor_solicitation @ src_ll_addr;
            ethernet = [(''Ether'', [(''src'', ns_src_mac self), (''dst'', hw_dst)])];
            p = ethernet @ ip6
        in Inr (p, self\<lparr>ns_packet := Some p\<rparr>))))))"

subsection \<open>RaGenerator\<close>

record RaGenerator =
  ra_packet :: "pkt option"
  ra_src_mac :: pyval
  ra_src_ipv6_type :: pyval
  ra_src_ipv6 :: pyval

definition RaGenerator_init :: "iface_env \<Rightarrow> (string \<rightharpoonup> pyval) \<Rightarrow> py_exception + RaGenerator" where
  "RaGenerator_init env config_params =
     bindE (getitem config_params ''interf'') (\<lambda>interf.
     bindE (config_or_local config_params ''src_mac'' (get_if_hwaddr env interf)) (\<lambda>src_mac.
     bindE (getitem config_params ''src_ipv6_type'') (\<lambda>src_ipv6_type.
     bindE (config_or_local config_params ''src_ipv6''
              (Inr (get_if_addr6 (in6_getifaddr env) interf src_ipv6_type))) (\<lambda>src_ipv6.
     Inr \<lparr>ra_packet = None, ra_src_mac = src_mac, ra_src_ipv6_type = src_ipv6_type,
          ra_src_ipv6 = src_ipv6\<rparr>))))"

definition RaGenerator_generate :: "RaGenerator \<Rightarrow> pyval \<Rightarrow> bool \<Rightarrow> pyval \<Rightarrow> pyval \<Rightarrow> pyval \<Rightarrow> pkt \<times> RaGenerator" where
  "RaGenerator_generate self lifetime enableDNS dns_lifetime ip_dst eth_dst =
     (let ip6_dst = or_default ip_dst (PyStr RA_IP);
          hw_dst = or_default eth_dst (PyStr RA_MAC);
          base = [(''IPv6'', [(''dst'', ip6_dst), (''src'', ra_src_ipv6 self)])];
          router_solicitation = [(''ICMPv6ND_RA'', [(''routerlifetime'', lifetime)])];
          src_ll_addr = [(''ICMPv6NDOptSrcLLAddr'', [(''lladdr'', ra_src_mac self)])];
          prefix = [(''ICMPv6NDOptPrefixInfo'', [(''prefixlen'', PyInt RA_PREFIX_LEN),
                      (''prefix'', PyStr RA_PREFIX)])];
          ip6 = (if enableDNS
                 then base @ router_solicitation @ src_ll_addr @ prefix @
                      [(''ICMPv6NDOptRDNSS'', [(''lifetime'', dns_lifetime),
                         (''dns'', PyList [ra_src_ipv6 self]), (''len'', PyInt DNS_LEN)])]
                 else base @ router_solicitation @ src_ll_addr @ prefix);
          ethernet = [(''Ether'', [(''src'', ra_src_mac self), (''dst'', hw_dst)])];
          p = ethernet @ ip6
      in (p, self\<lparr>ra_packet := Some p\<rparr>))"

subsection \<open>Ping6Generator and Ping4Generator\<close>

record Ping6Generator =
  ping6_packet :: "pkt option"
  ping6_dst_mac :: pyval
  ping6_src_mac :: pyval
  ping6_dst_ipv6 :: pyval
  ping6_src_ipv6_type :: pyval
  ping6_src_ipv6 :: pyval

definition Ping6Generator_init :: "iface_env \<Rightarrow> (string \<rightharpoonup> pyval) \<Rightarrow> py_exception + Ping6Generator" where
  "Ping6Generator_init env config_params =
     bindE (getitem config_params ''interf'') (\<lambda>interf.
     bindE (getitem config_params ''dst_mac'') (\<lambda>dst_mac.
     bindE (config_or_local config_params ''src_mac'' (get_if_hwaddr env interf)) (\<lambda>src_mac.
     bindE (getitem config_params ''dst_ipv6'') (\<lambda>dst_ipv6.
     bindE (getitem config_params ''src_ipv6_type'') (\<lambda>src_ipv6_type.
     bindE (config_or_local config_params ''src_ipv6''
              (Inr (get_if_addr6 (in6_getifaddr env) interf src_ipv6_type))) (\<lambda>src_ipv6.
     Inr \<lparr>ping6_packet = None, ping6_dst_mac = dst_mac, ping6_src_mac = src_mac,
          ping6_dst_ipv6 = dst_ipv6, ping6_src_ipv6_type = src_ipv6_type,
          ping6_src_ipv6 = src_ipv6\<rparr>))))))"

definition Ping6Generator_generate :: "Ping6Generator \<Rightarrow> pyval \<Rightarrow> pyval \<Rightarrow> pkt \<times> Ping6Generator" where
  "Ping6Generator_generate self ip_dst eth_dst =
     (let ip6_dst = or_default ip_dst (ping6_dst_ipv6 self);
          hw_dst = or_default eth_dst (ping6_dst_mac self);
          base = [(''IPv6'', [(''dst'', ip6_dst), (''src'', ping6_src_ipv6 self)])];
          echo_request = [(''ICMPv6EchoRequest'', [(''data'', PyStr PING6_DATA)])];
          ip6 = base @ echo_request;
          ethernet = [(''Ether'', [(''src'', ping6_src_mac self), (''dst'', hw_dst)])];
          p = ethernet @ ip6
      in (p, self\<lparr>ping6_packet := Some p\<rparr>))"

record Ping4Generator =
  ping4_packet :: "pkt option"
  ping4_dst_mac :: pyval
  ping4_src_mac :: pyval
  ping4_dst_ipv4 :: pyval
  ping4_src_ipv4 :: pyval

definition Ping4Generator_init :: "iface_env \<Rightarrow> (string \<rightharpoonup> pyval) \<Rightarrow> py_exception + Ping4Generator" where
  "Ping4Generator_init env config_params =
     bindE (getitem config_params ''interf'') (\<lambda>interf.
     bindE (getitem config_params ''dst_mac'') (\<lambda>dst_mac.
     bindE (config_or_local config_params ''src_mac'' (get_if_hwaddr env interf)) (\<lambda>src_mac.
     bindE (getitem config_params ''dst_ipv4'') (\<lambda>dst_ipv4.
     bindE (config_or_local config_params ''src_ipv4'' (get_if_addr env interf)) (\<lambda>src_ipv4.
     Inr \<lparr>ping4_packet = None, ping4_dst_mac = dst_mac, ping4_src_mac = src_mac,
          ping4_dst_ipv4 = dst_ipv4, ping4_src_ipv4 = src_ipv4\<rparr>)))))"

definition Ping4Generator_generate :: "Ping4Generator \<Rightarrow> pyval \<Rightarrow> pyval \<Rightarrow> pkt \<times> Ping4Generator" where
  "Ping4Generator_generate self ip_dst eth_dst =
     (let sta_ip = or_default ip_dst (ping4_dst_ipv4 self);
          sta_hw = or_default eth_dst (ping4_dst_mac self);
          base = [(''IP'', [(''src'', ping4_src_ipv4 self), (''dst'', sta_ip)])];
          echo_request = [(''ICMP'', [(''type'', PyInt PING4_TYPE)])];
          ip4 = base @ echo_request;
          ethernet = [(''Ether'', [(''src'', ping4_src_mac self), (''dst'', sta_hw)])];
          p = ethernet @ ip4
      in (p, self\<lparr>ping4_packet := Some p\<rparr>))"

subsection \<open>Mdns6Generator and Mdns4Generator\<close>

record Mdns6Generator =
  mdns6_packet :: "pkt option"
  mdns6_src_mac :: pyval
  mdns6_src_ipv6_type :: pyval
  mdns6_src_ipv6 :: pyval

definition Mdns6Generator_init :: "iface_env \<Rightarrow> (string \<rightharpoonup> pyval) \<Rightarrow> py_exception + Mdns6Generator" where
  "Mdns6Generator_init env config_params =
     bindE (getitem config_params ''interf'') (\<lambda>interf.
     bindE (config_or_local config_params ''src_mac'' (get_if_hwaddr env interf)) (\<lambda>src_mac.
     bindE (getitem config_params ''src_ipv6_type'') (\<lambda>src_ipv6_type.
     bindE (config_or_local config_params ''src_ipv6''
              (Inr (get_if_addr6 (in6_getifaddr env) interf src_ipv6_type))) (\<lambda>src_ipv6.
     Inr \<lparr>mdns6_packet = None, mdns6_src_mac = src_mac, mdns6_src_ipv6_type = src_ipv6_type,
          mdns6_src_ipv6 = src_ipv6\<rparr>))))"

definition Mdns6Generator_generate :: "Mdns6Generator \<Rightarrow> pyval \<Rightarrow> pyval \<Rightarrow> pkt \<times> Mdns6Generator" where
  "Mdns6Generator_generate self ip_dst eth_dst =
     (let sta_ip = or_default ip_dst (PyStr MDNS_V6_IP_DST);
          sta_hw = or_default eth_dst (PyStr MDNS_V6_MAC_DST);
          qdServer = [(''DNSQR'', [(''qname'', mdns6_src_ipv6 self), (''qtype'', PyStr MDNS_QTYPE)])];
          mDNS = [(''DNS'', [(''rd'', PyInt MDNS_RECURSIVE), (''qd'', PyPacket qdServer)])];
          udp = [(''UDP'', [(''sport'', PyInt MDNS_UDP_PORT), (''dport'', PyInt MDNS_UDP_PORT)])];
          ip6 = [(''IPv6'', [(''src'', mdns6_src_ipv6 self), (''dst'', sta_ip)])];
          ethernet = [(''Ether'', [(''src'', mdns6_src_mac self), (''dst'', sta_hw)])];
          p = ethernet @ ip6 @ udp @ mDNS
      in (p, self\<lparr>mdns6_packet := Some p\<rparr>))"

record Mdns4Generator =
  mdns4_packet :: "pkt option"
  mdns4_src_mac :: pyval
  mdns4_src_ipv4 :: pyval

definition Mdns4Generator_init :: "iface_env \<Rightarrow> (string \<rightharpoonup> pyval) \<Rightarrow> py_exception + Mdns4Generator" where
  "Mdns4Generator_init env config_params =
     bindE (getitem config_params ''interf'') (\<lambda>interf.
     bindE (config_or_local config_params ''src_mac'' (get_if_hwaddr env interf)) (\<lambda>src_mac.
     bindE (config_or_local config_params ''src_ipv4'' (get_if_addr env interf)) (\<lambda>src_ipv4.
     Inr \<lparr>mdns4_packet = None, mdns4_src_mac = src_mac, mdns4_src_ipv4 = src_ipv4\<rparr>)))"

definition Mdns4Generator_generate :: "Mdns4Generator \<Rightarrow> pyval \<Rightarrow> pyval \<Rightarrow> pkt \<times> Mdns4Generator" where
  "Mdns4Generator_generate self ip_dst eth_dst =
     (let sta_ip = or_default ip_dst (PyStr MDNS_V4_IP_DST);
          sta_hw = or_default eth_dst (PyStr MDNS_V4_MAC_DST);
          qdServer = [(''DNSQR'', [(''qname'', mdns4_src_ipv4 self), (''qtype'', PyStr MDNS_QTYPE)])];
          mDNS = [(''DNS'', [(''rd'', PyInt MDNS_RECURSIVE), (''qd'', PyPacket qdServer)])];
          udp = [(''UDP'', [(''sport'', PyInt MDNS_UDP_PORT), (''dport'', PyInt MDNS_UDP_PORT)])];
          ip4 = [(''IP'', [(''src'', mdns4_src_ipv4 self), (''dst'', sta_ip), (''ttl'', PyInt 255)])];
          ethernet = [(''Ether'', [(''src'', mdns4_src_mac self), (''dst'', sta_hw)])];
          p = ethernet @ ip4 @ udp @ mDNS
      in (p, self\<lparr>mdns4_packet := Some p\<rparr>))"

subsection \<open>Dot3Generator\<close>

record Dot3Generator =
  dot3_packet :: "pkt option"
  dot3_dst_mac :: pyval
  dot3_src_mac :: pyval

definition Dot3Generator_init :: "iface_env \<Rightarrow> (string \<rightharpoonup> pyval) \<Rightarrow> py_exception + Dot3Generator" where
  "Dot3Generator_init env config_params =
     bindE (getitem config_params ''interf'') (\<lambda>interf.
     bindE (getitem config_params ''dst_mac'') (\<lambda>dst_mac.
     bindE (config_or_local config_params ''src_mac'' (get_if_hwaddr env interf)) (\<lambda>src_mac.
     Inr \<lparr>dot3_packet = None, dot3_dst_mac = dst_mac, dot3_src_mac = src_mac\<rparr>)))"

definition build_ether :: "Dot3Generator \<Rightarrow> pyval \<Rightarrow> pkt" where
  "build_ether self eth_dst =
     (let sta_hw = or_default eth_dst (dot3_dst_mac self)
      in [(''Dot3'', [(''src'', dot3_src_mac self), (''dst'', sta_hw)])])"

text \<open>
  \<open>_pad_frame\<close>: \<open>frame.len = PAD_LEN_BYTES\<close> sets the field of the frame's first layer
  (the \<open>Dot3\<close> layer of \<open>_build_ether\<close>, the only one with a \<open>len\<close>); then the padding of
  128 zero bytes is appended.
\<close>

definition pad_frame :: "pkt \<Rightarrow> pkt" where
  "pad_frame frame =
     (case frame of
        [] \<Rightarrow> []
      | l # ls \<Rightarrow> (fst l, snd l @ [(''len'', PyInt (int PAD_LEN_BYTES))]) # ls)
     @ [(''Padding'', [(''load'', PyStr (replicate PAD_LEN_BYTES (CHR 0x00)))])]"

definition Dot3Generator_generate :: "Dot3Generator \<Rightarrow> pyval \<Rightarrow> pkt \<times> Dot3Generator" where
  "Dot3Generator_generate self eth_dst =
     (let ethernet = build_ether self eth_dst;
          p = pad_frame ethernet
      in (p, self\<lparr>dot3_packet := Some p\<rparr>))"

definition Dot3Generator_generate_llc :: "Dot3Generator \<Rightarrow> pyval \<Rightarrow> pyval \<Rightarrow> pyval \<Rightarrow> pyval \<Rightarrow> pkt \<times> Dot3Generator" where
  "Dot3Generator_generate_llc self eth_dst dsap ssap ctrl =
     (let ethernet = build_ether self eth_dst;
          llc = [(''LLC'', [(''dsap'', dsap), (''ssap'', ssap), (''ctrl'', ctrl)])];
          p = pad_frame (ethernet @ llc)
      in (p, self\<lparr>dot3_packet := Some p\<rparr>))"

definition Dot3Generator_generate_snap :: "Dot3Generator \<Rightarrow> pyval \<Rightarrow> pyval \<Rightarrow> pyval \<Rightarrow> pyval \<Rightarrow> pyval \<Rightarrow> pyval \<Rightarrow> pkt \<times> Dot3Generator" where
  "Dot3Generator_generate_snap self eth_dst dsap ssap ctrl oui code =
     (let ethernet = build_ether self eth_dst;
          llc = [(''LLC'', [(''dsap'', dsap), (''ssap'', ssap), (''ctrl'', ctrl)])];
          snap = [(''SNAP'', [(''OUI'', oui), (''code'', code)])];
          p = pad_frame (ethernet @ llc @ snap)
      in (p, self\<lparr>dot3_packet := Some p\<rparr>))"

subsection \<open>The generators together\<close>

datatype generator =
    Arp ArpGenerator
  | DhcpOffer DhcpOfferGenerator
  | Ns NsGenerator
  | Ra RaGenerator
  | Ping6 Ping6Generator
  | Ping4 Ping4Generator
  | Mdns6 Mdns6Generator
  | Mdns4 Mdns4Generator
  | Dot3 Dot3Generator

datatype generator_class =
    ArpClass | DhcpOfferClass | NsClass | RaClass | Ping6Class | Ping4Class
  | Mdns6Class | Mdns4Class | Dot3Class

text \<open>The constructor call of a class.\<close>

definition construct :: "generator_class \<Rightarrow> iface_env \<Rightarrow> (string \<rightharpoonup> pyval) \<Rightarrow> py_exception + generator" where
  "construct c env config_params =
     (case c of
        ArpClass \<Rightarrow> bindE (ArpGenerator_init env config_params) (\<lambda>g. Inr (Arp g))
      | DhcpOfferClass \<Rightarrow> bindE (DhcpOfferGenerator_init env config_params) (\<lambda>g. Inr (DhcpOffer g))
      | NsClass \<Rightarrow> bindE (NsGenerator_init env config_params) (\<lambda>g. Inr (Ns g))
      | RaClass \<Rightarrow> bindE (RaGenerator_init env config_params) (\<lambda>g. Inr (Ra g))
      | Ping6Class \<Rightarrow> bindE (Ping6Generator_init env config_params) (\<lambda>g. Inr (Ping6 g))
      | Ping4Class \<Rightarrow> bindE (Ping4Generator_init env config_params) (\<lambda>g. Inr (Ping4 g))
      | Mdns6Class \<Rightarrow> bindE (Mdns6Generator_init env config_params) (\<lambda>g. Inr (Mdns6 g))
      | Mdns4Class \<Rightarrow> bindE (Mdns4Generator_init env config_params) (\<lambda>g. Inr (Mdns4 g))
      | Dot3Class \<Rightarrow> bindE (Dot3Generator_init env config_params) (\<lambda>g. Inr (Dot3 g)))"

text \<open>
  \<open>generate()\<close> with every optional parameter at its default (\<open>None\<close>; \<open>op='who-has'\<close>,
  \<open>enableDNS=False\<close>, \<open>dns_lifetime=0\<close>). \<open>RaGenerator.generate\<close> has one required
  parameter, \<open>lifetime\<close>.
\<close>

definition generate_no_overrides :: "conv_lib \<Rightarrow> pyval \<Rightarrow> generator \<Rightarrow> py_exception + pkt \<times> generator" where
  "generate_no_overrides lib lifetime g =
     (case g of
        Arp a \<Rightarrow>
          (case ArpGenerator_generate a (PyStr ''who-has'') PyNone PyNone PyNone PyNone PyNone of
             (p, a') \<Rightarrow> Inr (p, Arp a'))
      | DhcpOffer d \<Rightarrow>
          bindE (DhcpOfferGenerator_generate lib d PyNone PyNone) (\<lambda>r. Inr (fst r, DhcpOffer (snd r)))
      | Ns n \<Rightarrow>
          bindE (NsGenerator_generate lib n PyNone PyNone) (\<lambda>r. Inr (fst r, Ns (snd r)))
      | Ra r \<Rightarrow>
          (case RaGenerator_generate r lifetime False (PyInt 0) PyNone PyNone of
             (p, r') \<Rightarrow> Inr (p, Ra r'))
      | Ping6 x \<Rightarrow> (case Ping6Generator_generate x PyNone PyNone of (p, x') \<Rightarrow> Inr (p, Ping6 x'))
      | Ping4 x \<Rightarrow> (case Ping4Generator_generate x PyNone PyNone of (p, x') \<Rightarrow> Inr (p, Ping4 x'))
      | Mdns6 x \<Rightarrow> (case Mdns6Generator_generate x PyNone PyNone of (p, x') \<Rightarrow> Inr (p, Mdns6 x'))
      | Mdns4 x \<Rightarrow> (case Mdns4Generator_generate x PyNone PyNone of (p, x') \<Rightarrow> Inr (p, Mdns4 x'))
      | Dot3 x \<Rightarrow> (case Dot3Generator_generate x PyNone of (p, x') \<Rightarrow> Inr (p, Dot3 x')))"

text \<open>The instance with its cached \<open>packet\<close> field overwritten, every other field kept.\<close>

definition with_packet :: "pkt \<Rightarrow> generator \<Rightarrow> generator" where
  "with_packet p g =
     (case g of
        Arp x \<Rightarrow> Arp (x\<lparr>arp_packet := Some p\<rparr>)
      | DhcpOffer x \<Rightarrow> DhcpOffer (x\<lparr>dhcp_packet := Some p\<rparr>)
      | Ns x \<Rightarrow> Ns (x\<lparr>ns_packet := Some p\<rparr>)
      | Ra x \<Rightarrow> Ra (x\<lparr>ra_packet := Some p\<rparr>)
      | Ping6 x \<Rightarrow> Ping6 (x\<lparr>ping6_packet := Some p\<rparr>)
      | Ping4 x \<Rightarrow> Ping4 (x\<lparr>ping4_packet := Some p\<rparr>)
      | Mdns6 x \<Rightarrow> Mdns6 (x\<lparr>mdns6_packet := Some p\<rparr>)
      | Mdns4 x \<Rightarrow> Mdns4 (x\<lparr>mdns4_packet := Some p\<rparr>)
      | Dot3 x \<Rightarrow> Dot3 (x\<lparr>dot3_packet := Some p\<rparr>))"

text \<open>No addressing field of the configuration asks for the local interface.\<close>

definition explicit_config :: "(string \<rightharpoonup> pyval) \<Rightarrow> bool" where
  "explicit_config config_params =
     (config_params ''src_mac'' \<noteq> Some (PyStr GET_FROM_LOCAL_INTERFACE)
      \<and> config_params ''src_ipv4'' \<noteq> Some (PyStr GET_FROM_LOCAL_INTERFACE)
      \<and> config_params ''src_ipv6'' \<noteq> Some (PyStr GET_FROM_LOCAL_INTERFACE))"

definition no_iface_env :: iface_env where
  "no_iface_env = \<lparr>get_if_hwaddr = (\<lambda>i. Inl (SocketError ''No such device'')),
     get_if_addr = (\<lambda>i. Inl (SocketError ''No such device'')), in6_getifaddr = []\<rparr>"

definition arp_example_config :: "string \<rightharpoonup> pyval" where
  "arp_example_config =
     [''interf'' \<mapsto> PyStr ''eth0'', ''src_mac'' \<mapsto> PyStr ''aa:bb:cc:dd:ee:ff'',
      ''src_ipv4'' \<mapsto> PyStr ''10.0.0.1'', ''dst_ipv4'' \<mapsto> PyStr ''10.0.0.2'']"

definition example_iface_env :: iface_env where
  "example_iface_env = \<lparr>get_if_hwaddr = (\<lambda>i. Inr (PyStr ''02:00:00:00:00:01'')),
     get_if_addr = (\<lambda>i. Inr (PyStr ''192.168.1.5'')),
     in6_getifaddr = [(PyStr ''fe80::1'', PyInt 32, PyStr ''eth0'')]\<rparr>"

definition no_conv_lib :: conv_lib where
  "no_conv_lib = \<lparr>inet_pton = (\<lambda>a. Inl (SocketError ''illegal IP address string passed to inet_pton'')),
     inet_ntop = (\<lambda>a. Inl (OtherException ''ValueError'')),
     in6_getnsma = (\<lambda>a. Inl (OtherException ''ValueError'')),
     in6_getnsmac = (\<lambda>a. Inl (OtherException ''ValueError'')),
     mac2str = (\<lambda>a. Inl (OtherException ''ValueError''))\<rparr>"

section \<open>hostapd\_utils: generate\_random\_password\<close>

text \<open>
  The module \<open>hostapd_constants\<close> is not among the sources: the three constants the
  function reads are parameters.
\<close>

record hostapd_constants =
  WEP_STRING :: string
  WEP_DEFAULT_STR_LENGTH :: int
  MIN_WPA_PSK_LENGTH :: int

text \<open>
  \<open>acts.utils\<close> is not among the sources either: the two random-string functions are
  parameters, each standing for the draw made by this call.
\<close>

record utils =
  rand_hex_str :: "int \<Rightarrow> string"
  rand_ascii_str :: "int \<Rightarrow> string"

text \<open>\<open>str.lower()\<close> on ASCII.\<close>

definition char_lower :: "char \<Rightarrow> char" where
  "char_lower c =
     (case map_of (zip ''ABCDEFGHIJKLMNOPQRSTUVWXYZ'' ''abcdefghijklmnopqrstuvwxyz'') c of
        None \<Rightarrow> c
      | Some l \<Rightarrow> l)"

definition str_lower :: "string \<Rightarrow> string" where
  "str_lower s = map char_lower s"

text \<open>
  \<open>generate_random_password(security_mode=None, length=None, hex=None)\<close>. The tests
  \<open>if hex:\<close>, \<open>if length:\<close> and \<open>if security_mode and ...\<close> are Python's truth tests:
  \<open>None\<close>, \<open>False\<close>, \<open>0\<close> and the empty string are false.
\<close>

definition generate_random_password :: "hostapd_constants \<Rightarrow> utils \<Rightarrow> string option \<Rightarrow> int option \<Rightarrow> bool option \<Rightarrow> string" where
  "generate_random_password C U security_mode len hex =
     (let generator_func = (if hex = Some True then rand_hex_str U else rand_ascii_str U) in
      if (case len of None \<Rightarrow> False | Some n \<Rightarrow> n \<noteq> 0)
      then (case len of None \<Rightarrow> [] | Some n \<Rightarrow> generator_func n)
      else if (case security_mode of
                 None \<Rightarrow> False
               | Some m \<Rightarrow> m \<noteq> [] \<and> str_lower m = WEP_STRING C)
      then generator_func (WEP_DEFAULT_STR_LENGTH C)
      else generator_func (MIN_WPA_PSK_LENGTH C))"

text \<open>
  Modelled from the spec: the values of the missing module \<open>hostapd_constants\<close>, as the
  docstring of \<open>generate_random_password\<close> gives them (a default of 8 characters, 13 for
  WEP), with the lower-case name of the mode that the comparison after \<open>lower()\<close> needs.
\<close>

definition documented_constants :: hostapd_constants where
  "documented_constants =
     \<lparr>WEP_STRING = ''wep'', WEP_DEFAULT_STR_LENGTH = 13, MIN_WPA_PSK_LENGTH = 8\<rparr>"

text \<open>A pair of generators for the examples: as many characters as asked for.\<close>

definition example_utils :: utils where
  "example_utils =
     \<lparr>rand_hex_str = (\<lambda>n. replicate (nat n) (CHR ''a'')),
      rand_ascii_str = (\<lambda>n. replicate (nat n) (CHR ''x''))\<rparr>"

section \<open>Lemmas on the loops and on the worker\<close>

lemma send_loop_all_done:
  "(\<forall>j<n. E j = (Done, Done)) \<Longrightarrow>
   send_loop E f n w = (Inr (), w\<lparr>wire := wire w @ replicate n f\<rparr>)"
proof (induction n arbitrary: E w)
  case 0
  then show ?case by simp
next
  case (Suc n)
  have head: "E 0 = (Done, Done)" using Suc.prems by simp
  have tail: "\<forall>j<n. (\<lambda>i. E (Suc i)) j = (Done, Done)" using Suc.prems by simp
  show ?case
    using Suc.IH [OF tail, of "transmit f w"] head
    by (simp add: send_body_def transmit_def replicate_app_Cons_same)
qed

lemma send_loop_raise_in_send:
  "k < n \<Longrightarrow> (\<forall>j<k. E j = (Done, Done)) \<Longrightarrow> fst (E k) = Raised e \<Longrightarrow>
   send_loop E f n w = after_raise e (w\<lparr>wire := wire w @ replicate k f\<rparr>)"
proof (induction n arbitrary: E w k)
  case 0
  then show ?case by simp
next
  case (Suc n)
  show ?case
  proof (cases k)
    case 0
    then show ?thesis using Suc.prems
      by (simp add: send_body_def except_socket_error_def after_raise_def)
  next
    case (Suc k')
    have head: "E 0 = (Done, Done)" using Suc.prems \<open>k = Suc k'\<close> by simp
    have tail: "\<forall>j<k'. (\<lambda>i. E (Suc i)) j = (Done, Done)" using Suc.prems \<open>k = Suc k'\<close> by simp
    have lt: "k' < n" using Suc.prems \<open>k = Suc k'\<close> by simp
    have r: "fst ((\<lambda>i. E (Suc i)) k') = Raised e" using Suc.prems \<open>k = Suc k'\<close> by simp
    show ?thesis
      using Suc.IH [OF lt tail r, of "transmit f w"] head \<open>k = Suc k'\<close>
      by (simp add: send_body_def transmit_def replicate_app_Cons_same)
  qed
qed

lemma send_loop_raise_in_sleep:
  "k < n \<Longrightarrow> (\<forall>j<k. E j = (Done, Done)) \<Longrightarrow> E k = (Done, Raised e) \<Longrightarrow>
   send_loop E f n w = after_raise e (w\<lparr>wire := wire w @ replicate (Suc k) f\<rparr>)"
proof (induction n arbitrary: E w k)
  case 0
  then show ?case by simp
next
  case (Suc n)
  show ?case
  proof (cases k)
    case 0
    then show ?thesis using Suc.prems
      by (simp add: send_body_def except_socket_error_def after_raise_def transmit_def)
  next
    case (Suc k')
    have head: "E 0 = (Done, Done)" using Suc.prems \<open>k = Suc k'\<close> by simp
    have tail: "\<forall>j<k'. (\<lambda>i. E (Suc i)) j = (Done, Done)" using Suc.prems \<open>k = Suc k'\<close> by simp
    have lt: "k' < n" using Suc.prems \<open>k = Suc k'\<close> by simp
    have r: "(\<lambda>i. E (Suc i)) k' = (Done, Raised e)" using Suc.prems \<open>k = Suc k'\<close> by simp
    show ?thesis
      using Suc.IH [OF lt tail r, of "transmit f w"] head \<open>k = Suc k'\<close>
      by (simp add: send_body_def transmit_def replicate_app_Cons_same)
  qed
qed

lemma join_no_step: "worker_step (E 0) t w = None \<Longrightarrow> join E t w = Some w"
  by (subst join.simps) simp

lemma join_one_step:
  "worker_step (E 0) t w = Some w' \<Longrightarrow> join E t w = join (\<lambda>i. E (Suc i)) t w'"
  by (subst join.simps) simp

lemma join_exited:
  "procs w (t_pid t) \<in> {NotStarted, Stopped, Failed, Terminated} \<Longrightarrow> join E t w = Some w"
  by (rule join_no_step) (auto simp: worker_step_def)

lemma join_AtPoll:
  assumes "procs w (t_pid t) = AtPoll" and "events w (t_stop_signal t)"
  shows "join E t w = Some (set_pc t Stopped (log_msg INFO ''Packet Sending Stopped.'' w))"
proof -
  let ?w' = "set_pc t Stopped (log_msg INFO ''Packet Sending Stopped.'' w)"
  have "worker_step (E 0) t w = Some ?w'" using assms by (simp add: worker_step_def)
  then have "join E t w = join (\<lambda>i. E (Suc i)) t ?w'" by (rule join_one_step)
  also have "\<dots> = Some ?w'" by (rule join_exited) (simp add: set_pc_def)
  finally show ?thesis .
qed

lemma join_Started:
  assumes "procs w (t_pid t) = Started" and "events w (t_stop_signal t)"
  shows "join E t w = Some (set_pc t Stopped (log_msg INFO ''Packet Sending Stopped.''
           (set_pc t AtPoll (log_msg INFO ''Packet Sending Started.'' w))))"
proof -
  let ?w' = "set_pc t AtPoll (log_msg INFO ''Packet Sending Started.'' w)"
  have "worker_step (E 0) t w = Some ?w'" using assms by (simp add: worker_step_def)
  then have "join E t w = join (\<lambda>i. E (Suc i)) t ?w'" by (rule join_one_step)
  also have "\<dots> = Some (set_pc t Stopped (log_msg INFO ''Packet Sending Stopped.'' ?w'))"
    using assms by (intro join_AtPoll) (simp_all add: set_pc_def log_msg_def)
  finally show ?thesis .
qed

lemma join_AtSleep:
  assumes "procs w (t_pid t) = AtSleep" and "events w (t_stop_signal t)"
  shows "join E t w = Some (case E 0 of
           Done \<Rightarrow> set_pc t Stopped (log_msg INFO ''Packet Sending Stopped.'' (set_pc t AtPoll w))
         | Raised e \<Rightarrow> set_pc t Failed (log_msg ERROR ''Exception when trying to send packet'' w))"
proof (cases "E 0")
  case Done
  let ?w' = "set_pc t AtPoll w"
  have "worker_step (E 0) t w = Some ?w'" using assms Done by (simp add: worker_step_def)
  then have "join E t w = join (\<lambda>i. E (Suc i)) t ?w'" by (rule join_one_step)
  also have "\<dots> = Some (set_pc t Stopped (log_msg INFO ''Packet Sending Stopped.'' ?w'))"
    using assms by (intro join_AtPoll) (simp_all add: set_pc_def)
  finally show ?thesis using Done by simp
next
  case (Raised e)
  let ?w' = "set_pc t Failed (log_msg ERROR ''Exception when trying to send packet'' w)"
  have "worker_step (E 0) t w = Some ?w'" using assms Raised by (simp add: worker_step_def)
  then have "join E t w = join (\<lambda>i. E (Suc i)) t ?w'" by (rule join_one_step)
  also have "\<dots> = Some ?w'" by (rule join_exited) (simp add: set_pc_def)
  finally show ?thesis using Raised by simp
qed

lemma join_AtSend:
  assumes "procs w (t_pid t) = AtSend" and "events w (t_stop_signal t)"
  shows "join E t w = Some (case E 0 of
           Done \<Rightarrow>
             (case E 1 of
                Done \<Rightarrow> set_pc t Stopped (log_msg INFO ''Packet Sending Stopped.''
                          (set_pc t AtPoll (set_pc t AtSleep
                             (transmit (Sendp (t_interface t) (t_packet t)) w))))
              | Raised e \<Rightarrow> set_pc t Failed (log_msg ERROR ''Exception when trying to send packet''
                          (set_pc t AtSleep (transmit (Sendp (t_interface t) (t_packet t)) w))))
         | Raised e \<Rightarrow> set_pc t Failed (log_msg ERROR ''Exception when trying to send packet'' w))"
proof (cases "E 0")
  case Done
  let ?w' = "set_pc t AtSleep (transmit (Sendp (t_interface t) (t_packet t)) w)"
  have "worker_step (E 0) t w = Some ?w'" using assms Done by (simp add: worker_step_def)
  then have "join E t w = join (\<lambda>i. E (Suc i)) t ?w'" by (rule join_one_step)
  also have "\<dots> = Some (case E 1 of
           Done \<Rightarrow> set_pc t Stopped (log_msg INFO ''Packet Sending Stopped.'' (set_pc t AtPoll ?w'))
         | Raised e \<Rightarrow> set_pc t Failed (log_msg ERROR ''Exception when trying to send packet'' ?w'))"
    using assms join_AtSleep [of ?w' t "\<lambda>i. E (Suc i)"]
    by (simp add: set_pc_def transmit_def)
  finally show ?thesis using Done by simp
next
  case (Raised e)
  let ?w' = "set_pc t Failed (log_msg ERROR ''Exception when trying to send packet'' w)"
  have "worker_step (E 0) t w = Some ?w'" using assms Raised by (simp add: worker_step_def)
  then have "join E t w = join (\<lambda>i. E (Suc i)) t ?w'" by (rule join_one_step)
  also have "\<dots> = Some ?w'" by (rule join_exited) (simp add: set_pc_def)
  finally show ?thesis using Raised by simp
qed

lemma join_returns_when_signalled:
  assumes "events w (t_stop_signal t)"
  shows "\<exists>w'. join E t w = Some w' \<and> \<not> is_alive t w' \<and> events w' = events w
           \<and> fresh w' = fresh w"
proof (cases "procs w (t_pid t)")
  case Started
  show ?thesis using join_Started [OF Started assms, of E]
    by (simp add: is_alive_def set_pc_def log_msg_def)
next
  case AtPoll
  show ?thesis using join_AtPoll [OF AtPoll assms, of E]
    by (simp add: is_alive_def set_pc_def log_msg_def)
next
  case AtSend
  show ?thesis using join_AtSend [OF AtSend assms, of E]
    by (simp add: is_alive_def set_pc_def log_msg_def transmit_def split: io_result.split)
next
  case AtSleep
  show ?thesis using join_AtSleep [OF AtSleep assms, of E]
    by (simp add: is_alive_def set_pc_def log_msg_def split: io_result.split)
qed (simp_all add: join_exited is_alive_def)

lemma worker_step_keeps:
  "worker_step r t w = Some w' \<Longrightarrow>
   events w' = events w \<and> fresh w' = fresh w \<and> procs w' (t_pid t) \<noteq> NotStarted"
  by (auto simp: worker_step_def set_pc_def log_msg_def transmit_def
           split: pc.splits if_splits io_result.splits)

lemma worker_run_keeps:
  "procs w (t_pid t) \<noteq> NotStarted \<Longrightarrow>
   events (worker_run rs t w) = events w \<and> fresh (worker_run rs t w) = fresh w
   \<and> procs (worker_run rs t w) (t_pid t) \<noteq> NotStarted"
proof (induction rs arbitrary: w)
  case Nil
  then show ?case by simp
next
  case (Cons r rs)
  show ?case
  proof (cases "worker_step r t w")
    case None
    then show ?thesis using Cons.prems by simp
  next
    case (Some w')
    from worker_step_keeps [OF Some] Cons.IH [of w'] Some show ?thesis by simp
  qed
qed

lemma worker_run_exited:
  "procs w (t_pid t) \<in> {NotStarted, Stopped, Failed, Terminated} \<Longrightarrow> worker_run rs t w = w"
  by (cases rs) (auto simp: worker_step_def)

lemma worker_step_reach:
  "worker_step r t w = Some w' \<Longrightarrow>
   procs w' (t_pid t) \<in> {AtPoll, AtSend, AtSleep, Stopped, Failed}"
  by (auto simp: worker_step_def set_pc_def split: pc.splits if_splits io_result.splits)

lemma worker_run_reach:
  "procs w (t_pid t) \<in> {Started, AtPoll, AtSend, AtSleep, Stopped, Failed} \<Longrightarrow>
   procs (worker_run rs t w) (t_pid t) \<in> {Started, AtPoll, AtSend, AtSleep, Stopped, Failed}"
proof (induction rs arbitrary: w)
  case Nil
  then show ?case by simp
next
  case (Cons r rs)
  show ?case
  proof (cases "worker_step r t w")
    case None
    then show ?thesis using Cons.prems by simp
  next
    case (Some w')
    have "procs w' (t_pid t) \<in> {Started, AtPoll, AtSend, AtSleep, Stopped, Failed}"
      using worker_step_reach [OF Some] by auto
    from Cons.IH [OF this] Some show ?thesis by simp
  qed
qed

lemma worker_step_quiet:
  "events w (t_stop_signal t) \<Longrightarrow> procs w (t_pid t) \<noteq> AtSend \<Longrightarrow>
   worker_step r t w = Some w' \<Longrightarrow>
   events w' (t_stop_signal t) \<and> procs w' (t_pid t) \<noteq> AtSend \<and> wire w' = wire w"
  by (auto simp: worker_step_def set_pc_def log_msg_def split: pc.splits io_result.splits)

lemma worker_run_quiet:
  "events w (t_stop_signal t) \<Longrightarrow> procs w (t_pid t) \<noteq> AtSend \<Longrightarrow>
   wire (worker_run rs t w) = wire w"
proof (induction rs arbitrary: w)
  case Nil
  then show ?case by simp
next
  case (Cons r rs)
  show ?case
  proof (cases "worker_step r t w")
    case None
    then show ?thesis by simp
  next
    case (Some w')
    from worker_step_quiet [OF Cons.prems Some] Cons.IH [of w'] Some
    show ?thesis by simp
  qed
qed

section \<open>The claims on PacketSender and its worker\<close>

text \<open>
  Claim C1. On a sender whose \<open>thread_active\<close> flag is set, \<open>start_sending\<close> with a packet
  (any packet, any interval) raises \<open>PacketSenderError\<close> and changes nothing: the sender's
  fields (\<open>thread_send\<close>, \<open>thread_active\<close>, \<open>stop_signal\<close>), the event flags and the table of
  processes are those of before, so no second worker exists.
\<close>

theorem start_sending_while_active:
  "thread_active (fst \<sigma>) \<Longrightarrow>
   start_sending (Some p) i \<sigma> =
     (Inl (PacketSenderError
        ''There is already an active thread. Stop itbefore starting another transmission.''), \<sigma>)"
  by (simp add: start_sending_def)

theorem start_sending_while_active_witness:
  "thread_active (fst (snd (start_sending (Some ''pkt'') 1 idle_state)))
   \<and> start_sending (Some ''other'') 2 (snd (start_sending (Some ''pkt'') 1 idle_state))
       = (Inl (PacketSenderError
            ''There is already an active thread. Stop itbefore starting another transmission.''),
          snd (start_sending (Some ''pkt'') 1 idle_state))"
  using start_sending_while_active [of "snd (start_sending (Some ''pkt'') 1 idle_state)" "''other''" 2]
  by (simp add: start_sending_def idle_state_def PacketSender_init_def Let_def)

text \<open>
  Claim C2. From an idle sender, \<open>start_sending\<close> succeeds; whatever the worker then does
  (any number of steps \<open>rs\<close>, any outcomes), \<open>stop_sending()\<close> returns normally, with
  \<open>thread_active\<close> false, \<open>thread_send\<close> unset and the stop signal cleared; from that state
  \<open>start_sending\<close> succeeds again, and the new worker starts with the signal clear.
\<close>

theorem restart_after_stop:
  assumes "\<not> thread_active s"
  shows "fst (start_sending (Some p) i (s, w)) = Inr ()
    \<and> (\<exists>w'. stop_sending E False (background_run rs (snd (start_sending (Some p) i (s, w))))
              = Some (Inr (), (s\<lparr>thread_send := None, thread_active := False\<rparr>, w'))
          \<and> \<not> events w' (stop_signal s)
          \<and> fst (start_sending (Some p') i' (s\<lparr>thread_send := None, thread_active := False\<rparr>, w'))
              = Inr ()
          \<and> thread_active (fst (snd (start_sending (Some p') i'
                (s\<lparr>thread_send := None, thread_active := False\<rparr>, w'))))
          \<and> \<not> events (snd (snd (start_sending (Some p') i'
                (s\<lparr>thread_send := None, thread_active := False\<rparr>, w')))) (stop_signal s))"
proof -
  let ?t = "\<lparr>t_stop_signal = stop_signal s, t_packet = p, t_interval = i,
             t_interface = interface s, t_pid = fresh w\<rparr>"
  let ?w0 = "set_pc ?t Started (w\<lparr>procs := (procs w)(fresh w := NotStarted), fresh := Suc (fresh w)\<rparr>)"
  let ?s1 = "s\<lparr>thread_send := Some ?t, thread_active := True\<rparr>"
  have start: "start_sending (Some p) i (s, w) = (Inr (), (?s1, ?w0))"
    using assms by (simp add: start_sending_def Let_def)
  let ?w1 = "worker_run rs ?t ?w0"
  have bg: "background_run rs (?s1, ?w0) = (?s1, ?w1)"
    by (simp add: background_run_def)
  have ns: "procs ?w0 (t_pid ?t) \<noteq> NotStarted" by (simp add: set_pc_def)
  note keep = worker_run_keeps [OF ns, of rs]
  let ?w2 = "?w1\<lparr>events := (events ?w1)(stop_signal s := True)\<rparr>"
  have sig: "events ?w2 (t_stop_signal ?t)" by simp
  have ns2: "procs ?w2 (t_pid ?t) \<noteq> NotStarted" using keep by simp
  from join_returns_when_signalled [OF sig, of E]
  obtain w3 where j: "join E ?t ?w2 = Some w3" and dead: "\<not> is_alive ?t w3"
    by blast
  let ?w4 = "w3\<lparr>events := (events w3)(stop_signal s := False)\<rparr>"
  have stop: "stop_sending E False (?s1, ?w1)
                = Some (Inr (), (s\<lparr>thread_send := None, thread_active := False\<rparr>, ?w4))"
    using ns2 j dead by (simp add: stop_sending_def Let_def)
  have clear: "\<not> events ?w4 (stop_signal s)" by simp
  have again: "fst (start_sending (Some p') i' (s\<lparr>thread_send := None, thread_active := False\<rparr>, ?w4)) = Inr ()
      \<and> thread_active (fst (snd (start_sending (Some p') i'
            (s\<lparr>thread_send := None, thread_active := False\<rparr>, ?w4))))
      \<and> \<not> events (snd (snd (start_sending (Some p') i'
            (s\<lparr>thread_send := None, thread_active := False\<rparr>, ?w4)))) (stop_signal s)"
    by (simp add: start_sending_def Let_def set_pc_def)
  show ?thesis
    using start bg stop clear again by (simp del: fun_upd_apply)
qed

theorem restart_after_stop_witness:
  "\<not> thread_active (fst idle_state)
   \<and> (\<exists>w'. stop_sending (\<lambda>j. Done) False
              (background_run [Done, Done, Done] (snd (start_sending (Some ''pkt'') 1 idle_state)))
            = Some (Inr (), (fst idle_state, w'))
        \<and> \<not> events w' (stop_signal (fst idle_state))
        \<and> fst (start_sending (Some ''next'') 2 (fst idle_state, w')) = Inr ())"
  using restart_after_stop [of "fst idle_state" "''pkt''" 1 "snd idle_state" "\<lambda>j. Done"
          "[Done, Done, Done]" "''next''" 2]
  by (simp add: idle_state_def PacketSender_init_def) blast

text \<open>
  Claim C3. On an idle sender, \<open>stop_sending(ignore_status=False)\<close> raises
  \<open>PacketSenderError\<close> and \<open>stop_sending(ignore_status=True)\<close> returns normally; both leave
  the sender and the world as they were.
\<close>

theorem stop_sending_idle:
  "\<not> thread_active (fst \<sigma>) \<Longrightarrow>
   stop_sending E False \<sigma> =
     Some (Inl (PacketSenderError ''Error: There is no acive thread running to stop.''), \<sigma>)
   \<and> stop_sending E True \<sigma> = Some (Inr (), \<sigma>)"
  by (simp add: stop_sending_def)

theorem stop_sending_idle_witness:
  "\<not> thread_active (fst idle_state)
   \<and> stop_sending (\<lambda>j. Done) False idle_state =
       Some (Inl (PacketSenderError ''Error: There is no acive thread running to stop.''), idle_state)
   \<and> stop_sending (\<lambda>j. Done) True idle_state = Some (Inr (), idle_state)"
  using stop_sending_idle [of idle_state "\<lambda>j. Done"]
  by (simp add: idle_state_def PacketSender_init_def)

text \<open>
  Claim C4. With no packet, \<open>send_ntimes\<close> and \<open>send_receive_ntimes\<close> raise
  \<open>PacketSenderError\<close> for every count and interval, in every state, and nothing has
  been transmitted or logged: the state is unchanged.
\<close>

theorem send_none_raises:
  "send_ntimes E None n i \<sigma> =
     (Inl (PacketSenderError ''There is no packet to send. Create a packet first.''), \<sigma>)
   \<and> send_receive_ntimes E None n i \<sigma> =
     (Inl (PacketSenderError ''There is no packet to send. Create a packet first.''), \<sigma>)"
  by (simp add: send_ntimes_def send_receive_ntimes_def)

text \<open>
  Claim C5. With a packet: if every pass completes, \<open>send_ntimes\<close> and
  \<open>send_receive_ntimes\<close> return normally having transmitted the packet exactly \<open>n\<close> times
  (\<open>nat n\<close>: a negative count is an empty range). If passes \<open>0 .. k - 1\<close> complete and pass
  \<open>k\<close> raises a socket error, the method returns normally (no exception reaches the
  caller), one record is logged, the remaining passes are not made (\<open>k\<close> transmissions
  when the transmission raised, \<open>k + 1\<close> when the sleep did), and the sender's fields are
  unchanged.
\<close>

theorem send_counts:
  "((\<forall>j<nat n. E j = (Done, Done)) \<longrightarrow>
      send_ntimes E (Some p) n i (s, w)
        = (Inr (), (s, w\<lparr>wire := wire w @ replicate (nat n) (Sendp (interface s) p)\<rparr>))
      \<and> send_receive_ntimes E (Some p) n i (s, w)
        = (Inr (), (s, w\<lparr>wire := wire w @ replicate (nat n) (Srp1 (interface s) p i)\<rparr>)))
   \<and> (k < nat n \<and> (\<forall>j<k. E j = (Done, Done)) \<and> fst (E k) = Raised e \<and> is_socket_error e \<longrightarrow>
      send_ntimes E (Some p) n i (s, w)
        = (Inr (), (s, w\<lparr>wire := wire w @ replicate k (Sendp (interface s) p),
                         logs := logs w @ [(ERROR, ''Caught socket exception : '' @ py_str e)]\<rparr>))
      \<and> send_receive_ntimes E (Some p) n i (s, w)
        = (Inr (), (s, w\<lparr>wire := wire w @ replicate k (Srp1 (interface s) p i),
                         logs := logs w @ [(ERROR, ''Caught socket exception : '' @ py_str e)]\<rparr>)))
   \<and> (k < nat n \<and> (\<forall>j<k. E j = (Done, Done)) \<and> E k = (Done, Raised e) \<and> is_socket_error e \<longrightarrow>
      send_ntimes E (Some p) n i (s, w)
        = (Inr (), (s, w\<lparr>wire := wire w @ replicate (Suc k) (Sendp (interface s) p),
                         logs := logs w @ [(ERROR, ''Caught socket exception : '' @ py_str e)]\<rparr>))
      \<and> send_receive_ntimes E (Some p) n i (s, w)
        = (Inr (), (s, w\<lparr>wire := wire w @ replicate (Suc k) (Srp1 (interface s) p i),
                         logs := logs w @ [(ERROR, ''Caught socket exception : '' @ py_str e)]\<rparr>)))"
proof (intro conjI impI)
  assume a: "\<forall>j<nat n. E j = (Done, Done)"
  show "send_ntimes E (Some p) n i (s, w)
        = (Inr (), (s, w\<lparr>wire := wire w @ replicate (nat n) (Sendp (interface s) p)\<rparr>))"
    by (simp add: send_ntimes_def send_loop_all_done [OF a])
  show "send_receive_ntimes E (Some p) n i (s, w)
        = (Inr (), (s, w\<lparr>wire := wire w @ replicate (nat n) (Srp1 (interface s) p i)\<rparr>))"
    by (simp add: send_receive_ntimes_def send_loop_all_done [OF a])
next
  assume a: "k < nat n \<and> (\<forall>j<k. E j = (Done, Done)) \<and> fst (E k) = Raised e \<and> is_socket_error e"
  then have l: "\<And>f. send_loop E f (nat n) w = after_raise e (w\<lparr>wire := wire w @ replicate k f\<rparr>)"
    by (intro send_loop_raise_in_send) simp_all
  show "send_ntimes E (Some p) n i (s, w)
        = (Inr (), (s, w\<lparr>wire := wire w @ replicate k (Sendp (interface s) p),
                         logs := logs w @ [(ERROR, ''Caught socket exception : '' @ py_str e)]\<rparr>))"
    using a by (simp add: send_ntimes_def l after_raise_def log_msg_def)
  show "send_receive_ntimes E (Some p) n i (s, w)
        = (Inr (), (s, w\<lparr>wire := wire w @ replicate k (Srp1 (interface s) p i),
                         logs := logs w @ [(ERROR, ''Caught socket exception : '' @ py_str e)]\<rparr>))"
    using a by (simp add: send_receive_ntimes_def l after_raise_def log_msg_def)
next
  assume a: "k < nat n \<and> (\<forall>j<k. E j = (Done, Done)) \<and> E k = (Done, Raised e) \<and> is_socket_error e"
  then have l: "\<And>f. send_loop E f (nat n) w = after_raise e (w\<lparr>wire := wire w @ replicate (Suc k) f\<rparr>)"
    by (intro send_loop_raise_in_sleep) simp_all
  show "send_ntimes E (Some p) n i (s, w)
        = (Inr (), (s, w\<lparr>wire := wire w @ replicate (Suc k) (Sendp (interface s) p),
                         logs := logs w @ [(ERROR, ''Caught socket exception : '' @ py_str e)]\<rparr>))"
    using a by (simp add: send_ntimes_def l after_raise_def log_msg_def)
  show "send_receive_ntimes E (Some p) n i (s, w)
        = (Inr (), (s, w\<lparr>wire := wire w @ replicate (Suc k) (Srp1 (interface s) p i),
                         logs := logs w @ [(ERROR, ''Caught socket exception : '' @ py_str e)]\<rparr>))"
    using a by (simp add: send_receive_ntimes_def l after_raise_def log_msg_def)
qed

theorem send_counts_witness:
  "send_ntimes (\<lambda>j. (Done, Done)) (Some ''pkt'') 3 1 idle_state
     = (Inr (), (fst idle_state, (snd idle_state)\<lparr>wire :=
          [Sendp ''eth0'' ''pkt'', Sendp ''eth0'' ''pkt'', Sendp ''eth0'' ''pkt'']\<rparr>))
   \<and> send_receive_ntimes
       (\<lambda>j. if j = 1 then (Raised (SocketError ''down''), Done) else (Done, Done))
       (Some ''pkt'') 3 1 idle_state
     = (Inr (), (fst idle_state, (snd idle_state)\<lparr>wire := [Srp1 ''eth0'' ''pkt'' 1],
          logs := [(ERROR, ''Caught socket exception : down'')]\<rparr>))
   \<and> send_ntimes
       (\<lambda>j. if j = 1 then (Done, Raised (SocketError ''down'')) else (Done, Done))
       (Some ''pkt'') 3 1 idle_state
     = (Inr (), (fst idle_state, (snd idle_state)\<lparr>wire :=
          [Sendp ''eth0'' ''pkt'', Sendp ''eth0'' ''pkt''],
          logs := [(ERROR, ''Caught socket exception : down'')]\<rparr>))"
  using send_counts [of 3 "\<lambda>j. (Done, Done)" "''pkt''" 1 "fst idle_state" "snd idle_state"]
    send_counts [of 3 "\<lambda>j. if j = 1 then (Raised (SocketError ''down''), Done) else (Done, Done)"
       "''pkt''" 1 "fst idle_state" "snd idle_state" 1 "SocketError ''down''"]
    send_counts [of 3 "\<lambda>j. if j = 1 then (Done, Raised (SocketError ''down'')) else (Done, Done)"
       "''pkt''" 1 "fst idle_state" "snd idle_state" 1 "SocketError ''down''"]
  by (simp add: idle_state_def PacketSender_init_def empty_world_def numeral_3_eq_3)

text \<open>
  Claim C6. The worker loop as a step function on control points, each step fixed.
  The first step of a started worker logs and reaches the poll, transmitting nothing.
  At the top of the loop the signal is polled: if it is set the worker logs and stops; if
  it is clear the worker goes on to transmit, nothing else changing. The transmission
  puts exactly one frame on the wire and leads to the sleep; the sleep leads back to the
  poll and changes nothing else. So from the poll with the signal clear, three steps
  transmit the packet once, sleep and come back to the poll; when the sleep raises the
  frame is already on the wire, and when the transmission raises no frame is. Once the
  signal is set, a worker that is not in the middle of a transmission never transmits
  again, whatever the run (a worker started with the signal set transmits nothing), and
  one that is transmits at most the frame in flight. An exception in the transmission
  or in the sleep is logged and ends the worker at once, whatever comes after. A worker
  has no step exactly when it was not started or has exited; a started worker that is no
  longer alive after a run of its own has stopped on the signal or failed on an
  exception. And once the signal is set, waiting for the worker ends.
\<close>

theorem worker_loop_protocol:
  "(procs w (t_pid t) = Started \<longrightarrow>
      worker_step r t w = Some (set_pc t AtPoll (log_msg INFO ''Packet Sending Started.'' w)))
   \<and> (procs w (t_pid t) = AtPoll \<and> events w (t_stop_signal t) \<longrightarrow>
      worker_step r t w = Some (set_pc t Stopped (log_msg INFO ''Packet Sending Stopped.'' w))
      \<and> (\<forall>rs. wire (worker_run rs t w) = wire w))
   \<and> (procs w (t_pid t) = AtPoll \<and> \<not> events w (t_stop_signal t) \<longrightarrow>
      worker_step r t w = Some (set_pc t AtSend w)
      \<and> worker_run [r, Done, Done] t w
          = set_pc t AtPoll (transmit (Sendp (t_interface t) (t_packet t)) w)
      \<and> worker_run [r, Done, Raised e] t w
          = set_pc t Failed (log_msg ERROR ''Exception when trying to send packet''
              (transmit (Sendp (t_interface t) (t_packet t)) w))
      \<and> worker_run [r, Raised e] t w
          = set_pc t Failed (log_msg ERROR ''Exception when trying to send packet'' w))
   \<and> (procs w (t_pid t) = AtSend \<longrightarrow>
      worker_step Done t w
        = Some (set_pc t AtSleep (transmit (Sendp (t_interface t) (t_packet t)) w))
      \<and> worker_step (Raised e) t w
        = Some (set_pc t Failed (log_msg ERROR ''Exception when trying to send packet'' w)))
   \<and> (procs w (t_pid t) = AtSleep \<longrightarrow>
      worker_step Done t w = Some (set_pc t AtPoll w)
      \<and> worker_step (Raised e) t w
        = Some (set_pc t Failed (log_msg ERROR ''Exception when trying to send packet'' w)))
   \<and> (events w (t_stop_signal t) \<and> procs w (t_pid t) \<noteq> AtSend \<longrightarrow>
      (\<forall>rs. wire (worker_run rs t w) = wire w))
   \<and> (events w (t_stop_signal t) \<and> procs w (t_pid t) = AtSend \<longrightarrow>
      (\<forall>rs. wire (worker_run rs t w) = wire w
         \<or> wire (worker_run rs t w) = wire w @ [Sendp (t_interface t) (t_packet t)]))
   \<and> (procs w (t_pid t) \<in> {AtSend, AtSleep} \<longrightarrow>
      (\<forall>rs. worker_run (Raised e # rs) t w
        = set_pc t Failed (log_msg ERROR ''Exception when trying to send packet'' w)))
   \<and> ((worker_step r t w = None)
        = (procs w (t_pid t) \<in> {NotStarted, Stopped, Failed, Terminated}))
   \<and> (procs w (t_pid t) \<in> {Started, AtPoll, AtSend, AtSleep}
        \<and> \<not> is_alive t (worker_run rs t w) \<longrightarrow>
      procs (worker_run rs t w) (t_pid t) \<in> {Stopped, Failed})
   \<and> (events w (t_stop_signal t) \<longrightarrow>
      (\<exists>w'. join E t w = Some w' \<and> \<not> is_alive t w'))"
proof (intro conjI impI allI)
  assume "procs w (t_pid t) = Started"
  then show "worker_step r t w
      = Some (set_pc t AtPoll (log_msg INFO ''Packet Sending Started.'' w))"
    by (simp add: worker_step_def)
next
  assume a: "procs w (t_pid t) = AtPoll \<and> events w (t_stop_signal t)"
  show "worker_step r t w = Some (set_pc t Stopped (log_msg INFO ''Packet Sending Stopped.'' w))"
    using a by (simp add: worker_step_def)
next
  fix rs
  assume a: "procs w (t_pid t) = AtPoll \<and> events w (t_stop_signal t)"
  then show "wire (worker_run rs t w) = wire w"
    by (intro worker_run_quiet) simp_all
next
  assume a: "procs w (t_pid t) = AtPoll \<and> \<not> events w (t_stop_signal t)"
  show "worker_step r t w = Some (set_pc t AtSend w)"
    using a by (simp add: worker_step_def)
  show "worker_run [r, Done, Done] t w
          = set_pc t AtPoll (transmit (Sendp (t_interface t) (t_packet t)) w)"
    using a by (simp add: worker_step_def set_pc_def transmit_def)
  show "worker_run [r, Done, Raised e] t w
          = set_pc t Failed (log_msg ERROR ''Exception when trying to send packet''
              (transmit (Sendp (t_interface t) (t_packet t)) w))"
    using a by (simp add: worker_step_def set_pc_def transmit_def log_msg_def)
  show "worker_run [r, Raised e] t w
          = set_pc t Failed (log_msg ERROR ''Exception when trying to send packet'' w)"
    using a by (simp add: worker_step_def set_pc_def log_msg_def)
next
  assume a: "procs w (t_pid t) = AtSend"
  show "worker_step Done t w
        = Some (set_pc t AtSleep (transmit (Sendp (t_interface t) (t_packet t)) w))"
    using a by (simp add: worker_step_def)
  show "worker_step (Raised e) t w
        = Some (set_pc t Failed (log_msg ERROR ''Exception when trying to send packet'' w))"
    using a by (simp add: worker_step_def)
next
  assume a: "procs w (t_pid t) = AtSleep"
  show "worker_step Done t w = Some (set_pc t AtPoll w)"
    using a by (simp add: worker_step_def)
  show "worker_step (Raised e) t w
        = Some (set_pc t Failed (log_msg ERROR ''Exception when trying to send packet'' w))"
    using a by (simp add: worker_step_def)
next
  fix rs
  assume "events w (t_stop_signal t) \<and> procs w (t_pid t) \<noteq> AtSend"
  then show "wire (worker_run rs t w) = wire w"
    by (intro worker_run_quiet) simp_all
next
  fix rs
  assume a: "events w (t_stop_signal t) \<and> procs w (t_pid t) = AtSend"
  show "wire (worker_run rs t w) = wire w
         \<or> wire (worker_run rs t w) = wire w @ [Sendp (t_interface t) (t_packet t)]"
  proof (cases rs)
    case Nil
    then show ?thesis by simp
  next
    case (Cons x xs)
    show ?thesis
    proof (cases x)
      case Done
      let ?w' = "set_pc t AtSleep (transmit (Sendp (t_interface t) (t_packet t)) w)"
      have s: "worker_step x t w = Some ?w'"
        using a Done by (simp add: worker_step_def)
      have "wire (worker_run xs t ?w') = wire ?w'"
        using a by (intro worker_run_quiet) (simp_all add: set_pc_def transmit_def)
      then show ?thesis using Cons s by (simp add: set_pc_def transmit_def)
    next
      case (Raised e')
      let ?w' = "set_pc t Failed (log_msg ERROR ''Exception when trying to send packet'' w)"
      have s: "worker_step x t w = Some ?w'"
        using a Raised by (simp add: worker_step_def)
      have "wire (worker_run xs t ?w') = wire ?w'"
        using a by (intro worker_run_quiet) (simp_all add: set_pc_def log_msg_def)
      then show ?thesis using Cons s by (simp add: set_pc_def log_msg_def)
    qed
  qed
next
  fix rs
  assume a: "procs w (t_pid t) \<in> {AtSend, AtSleep}"
  let ?w' = "set_pc t Failed (log_msg ERROR ''Exception when trying to send packet'' w)"
  have s: "worker_step (Raised e) t w = Some ?w'"
    using a by (auto simp: worker_step_def)
  have "worker_run rs t ?w' = ?w'"
    by (rule worker_run_exited) (simp add: set_pc_def)
  then show "worker_run (Raised e # rs) t w = ?w'" using s by simp
next
  show "(worker_step r t w = None)
          = (procs w (t_pid t) \<in> {NotStarted, Stopped, Failed, Terminated})"
    by (simp add: worker_step_def split: pc.split io_result.split)
next
  assume a: "procs w (t_pid t) \<in> {Started, AtPoll, AtSend, AtSleep}
               \<and> \<not> is_alive t (worker_run rs t w)"
  then have "procs w (t_pid t) \<in> {Started, AtPoll, AtSend, AtSleep, Stopped, Failed}" by auto
  from worker_run_reach [OF this, of rs] a
  show "procs (worker_run rs t w) (t_pid t) \<in> {Stopped, Failed}"
    by (auto simp: is_alive_def)
next
  assume "events w (t_stop_signal t)"
  from join_returns_when_signalled [OF this, of E]
  show "\<exists>w'. join E t w = Some w' \<and> \<not> is_alive t w'" by blast
qed

theorem worker_loop_protocol_witness:
  "worker_step Done example_worker (example_world True Started)
     = Some (set_pc example_worker AtPoll
              (log_msg INFO ''Packet Sending Started.'' (example_world True Started)))
   \<and> wire (worker_run [Done, Done, Done, Done] example_worker (example_world True Started)) = []
   \<and> worker_step Done example_worker (example_world True AtPoll)
     = Some (set_pc example_worker Stopped
              (log_msg INFO ''Packet Sending Stopped.'' (example_world True AtPoll)))
   \<and> wire (worker_run [Done, Done, Done] example_worker (example_world True AtPoll)) = []
   \<and> worker_step Done example_worker (example_world False AtPoll)
     = Some (set_pc example_worker AtSend (example_world False AtPoll))
   \<and> worker_run [Done, Done, Done] example_worker (example_world False AtPoll)
     = set_pc example_worker AtPoll (transmit (Sendp ''eth0'' ''pkt'') (example_world False AtPoll))
   \<and> worker_run [Done, Done, Raised (OtherException ''boom'')] example_worker
        (example_world False AtPoll)
     = set_pc example_worker Failed
        (log_msg ERROR ''Exception when trying to send packet''
          (transmit (Sendp ''eth0'' ''pkt'') (example_world False AtPoll)))
   \<and> worker_step Done example_worker (example_world False AtSend)
     = Some (set_pc example_worker AtSleep
              (transmit (Sendp ''eth0'' ''pkt'') (example_world False AtSend)))
   \<and> worker_step Done example_worker (example_world False AtSleep)
     = Some (set_pc example_worker AtPoll (example_world False AtSleep))
   \<and> worker_run [Raised (OtherException ''boom''), Done, Done] example_worker
        (example_world False AtSend)
     = set_pc example_worker Failed
        (log_msg ERROR ''Exception when trying to send packet'' (example_world False AtSend))
   \<and> wire (worker_run [Done, Done, Done, Done] example_worker (example_world True AtSend))
       = [Sendp ''eth0'' ''pkt'']
   \<and> procs (worker_run [Done, Done] example_worker (example_world True AtSleep)) 1 \<in> {Stopped, Failed}
   \<and> (\<exists>w'. join (\<lambda>j. Done) example_worker (example_world True AtSend) = Some w'
          \<and> \<not> is_alive example_worker w')"
proof -
  note defs = example_world_def example_worker_def is_alive_def worker_step_def set_pc_def
    log_msg_def transmit_def
  have started: "worker_step Done example_worker (example_world True Started)
       = Some (set_pc example_worker AtPoll
                (log_msg INFO ''Packet Sending Started.'' (example_world True Started)))
     \<and> wire (worker_run [Done, Done, Done, Done] example_worker (example_world True Started)) = []"
    using worker_loop_protocol [where w = "example_world True Started" and t = example_worker
            and r = Done and e = "OtherException ''boom''" and rs = "[Done, Done]"
            and E = "\<lambda>j. Done"]
    by (simp add: defs)
  have set: "worker_step Done example_worker (example_world True AtPoll)
       = Some (set_pc example_worker Stopped
                (log_msg INFO ''Packet Sending Stopped.'' (example_world True AtPoll)))
     \<and> wire (worker_run [Done, Done, Done] example_worker (example_world True AtPoll)) = []"
    using worker_loop_protocol [where w = "example_world True AtPoll" and t = example_worker
            and r = Done and e = "OtherException ''boom''" and rs = "[Done, Done]"
            and E = "\<lambda>j. Done"]
    by (simp add: defs)
  have clear: "worker_step Done example_worker (example_world False AtPoll)
       = Some (set_pc example_worker AtSend (example_world False AtPoll))
     \<and> worker_run [Done, Done, Done] example_worker (example_world False AtPoll)
       = set_pc example_worker AtPoll
           (transmit (Sendp ''eth0'' ''pkt'') (example_world False AtPoll))
     \<and> worker_run [Done, Done, Raised (OtherException ''boom'')] example_worker
          (example_world False AtPoll)
       = set_pc example_worker Failed
          (log_msg ERROR ''Exception when trying to send packet''
            (transmit (Sendp ''eth0'' ''pkt'') (example_world False AtPoll)))"
    using worker_loop_protocol [where w = "example_world False AtPoll" and t = example_worker
            and r = Done and e = "OtherException ''boom''" and rs = "[Done, Done]"
            and E = "\<lambda>j. Done"]
    by (simp add: defs)
  have send: "worker_step Done example_worker (example_world False AtSend)
       = Some (set_pc example_worker AtSleep
                (transmit (Sendp ''eth0'' ''pkt'') (example_world False AtSend)))
     \<and> worker_run [Raised (OtherException ''boom''), Done, Done] example_worker
          (example_world False AtSend)
       = set_pc example_worker Failed
          (log_msg ERROR ''Exception when trying to send packet'' (example_world False AtSend))"
    using worker_loop_protocol [where w = "example_world False AtSend" and t = example_worker
            and r = Done and e = "OtherException ''boom''" and rs = "[Done, Done]"
            and E = "\<lambda>j. Done"]
    by (simp add: defs)
  have sleep: "worker_step Done example_worker (example_world False AtSleep)
       = Some (set_pc example_worker AtPoll (example_world False AtSleep))"
    using worker_loop_protocol [where w = "example_world False AtSleep" and t = example_worker
            and r = Done and e = "OtherException ''boom''" and rs = "[Done, Done]"
            and E = "\<lambda>j. Done"]
    by (simp add: defs)
  have flight: "wire (worker_run [Done, Done, Done, Done] example_worker
          (example_world True AtSend)) = [Sendp ''eth0'' ''pkt'']"
    using worker_loop_protocol [where w = "example_world True AtSend" and t = example_worker
            and r = Done and e = "OtherException ''boom''" and rs = "[Done, Done]"
            and E = "\<lambda>j. Done"]
    by (simp add: defs)
  have exit: "procs (worker_run [Done, Done] example_worker (example_world True AtSleep)) 1
       \<in> {Stopped, Failed}"
    using worker_loop_protocol [where w = "example_world True AtSleep" and t = example_worker
            and r = Done and e = "OtherException ''boom''" and rs = "[Done, Done]"
            and E = "\<lambda>j. Done"]
    by (simp add: defs)
  have wait: "\<exists>w'. join (\<lambda>j. Done) example_worker (example_world True AtSend) = Some w'
       \<and> \<not> is_alive example_worker w'"
    using worker_loop_protocol [where w = "example_world True AtSend" and t = example_worker
            and r = Done and e = "OtherException ''boom''" and rs = "[Done, Done]"
            and E = "\<lambda>j. Done"]
    by (simp add: example_world_def example_worker_def)
  from started set clear send sleep flight exit wait show ?thesis by blast
qed

text \<open>
  Claim C10. In \<open>send_ntimes\<close> and \<open>send_receive_ntimes\<close> an exception raised in pass \<open>k\<close>
  (by the transmission or by the sleep) is caught exactly when it is a socket error: then
  the method logs and returns; any other exception reaches the caller as it was raised.
  The worker's handler takes every exception: the worker logs and exits. In all cases the
  sender's fields are unchanged.
\<close>

theorem exceptions_caught:
  "(k < nat n \<and> (\<forall>j<k. E j = (Done, Done)) \<and> fst (E k) = Raised e \<longrightarrow>
      send_ntimes E (Some p) n i (s, w)
        = (if is_socket_error e
           then (Inr (), (s, w\<lparr>wire := wire w @ replicate k (Sendp (interface s) p),
                   logs := logs w @ [(ERROR, ''Caught socket exception : '' @ py_str e)]\<rparr>))
           else (Inl e, (s, w\<lparr>wire := wire w @ replicate k (Sendp (interface s) p)\<rparr>)))
      \<and> send_receive_ntimes E (Some p) n i (s, w)
        = (if is_socket_error e
           then (Inr (), (s, w\<lparr>wire := wire w @ replicate k (Srp1 (interface s) p i),
                   logs := logs w @ [(ERROR, ''Caught socket exception : '' @ py_str e)]\<rparr>))
           else (Inl e, (s, w\<lparr>wire := wire w @ replicate k (Srp1 (interface s) p i)\<rparr>))))
   \<and> (k < nat n \<and> (\<forall>j<k. E j = (Done, Done)) \<and> E k = (Done, Raised e) \<longrightarrow>
      send_ntimes E (Some p) n i (s, w)
        = (if is_socket_error e
           then (Inr (), (s, w\<lparr>wire := wire w @ replicate (Suc k) (Sendp (interface s) p),
                   logs := logs w @ [(ERROR, ''Caught socket exception : '' @ py_str e)]\<rparr>))
           else (Inl e, (s, w\<lparr>wire := wire w @ replicate (Suc k) (Sendp (interface s) p)\<rparr>)))
      \<and> send_receive_ntimes E (Some p) n i (s, w)
        = (if is_socket_error e
           then (Inr (), (s, w\<lparr>wire := wire w @ replicate (Suc k) (Srp1 (interface s) p i),
                   logs := logs w @ [(ERROR, ''Caught socket exception : '' @ py_str e)]\<rparr>))
           else (Inl e, (s, w\<lparr>wire := wire w @ replicate (Suc k) (Srp1 (interface s) p i)\<rparr>))))
   \<and> (thread_send s = Some t \<and> procs w (t_pid t) \<in> {AtSend, AtSleep} \<longrightarrow>
      background_run [Raised e] (s, w)
        = (s, set_pc t Failed (log_msg ERROR ''Exception when trying to send packet'' w)))"
proof (intro conjI impI)
  assume a: "k < nat n \<and> (\<forall>j<k. E j = (Done, Done)) \<and> fst (E k) = Raised e"
  then have l: "\<And>f. send_loop E f (nat n) w = after_raise e (w\<lparr>wire := wire w @ replicate k f\<rparr>)"
    by (intro send_loop_raise_in_send) simp_all
  show "send_ntimes E (Some p) n i (s, w)
        = (if is_socket_error e
           then (Inr (), (s, w\<lparr>wire := wire w @ replicate k (Sendp (interface s) p),
                   logs := logs w @ [(ERROR, ''Caught socket exception : '' @ py_str e)]\<rparr>))
           else (Inl e, (s, w\<lparr>wire := wire w @ replicate k (Sendp (interface s) p)\<rparr>)))"
    by (simp add: send_ntimes_def l after_raise_def log_msg_def)
  show "send_receive_ntimes E (Some p) n i (s, w)
        = (if is_socket_error e
           then (Inr (), (s, w\<lparr>wire := wire w @ replicate k (Srp1 (interface s) p i),
                   logs := logs w @ [(ERROR, ''Caught socket exception : '' @ py_str e)]\<rparr>))
           else (Inl e, (s, w\<lparr>wire := wire w @ replicate k (Srp1 (interface s) p i)\<rparr>)))"
    by (simp add: send_receive_ntimes_def l after_raise_def log_msg_def)
next
  assume a: "k < nat n \<and> (\<forall>j<k. E j = (Done, Done)) \<and> E k = (Done, Raised e)"
  then have l: "\<And>f. send_loop E f (nat n) w = after_raise e (w\<lparr>wire := wire w @ replicate (Suc k) f\<rparr>)"
    by (intro send_loop_raise_in_sleep) simp_all
  show "send_ntimes E (Some p) n i (s, w)
        = (if is_socket_error e
           then (Inr (), (s, w\<lparr>wire := wire w @ replicate (Suc k) (Sendp (interface s) p),
                   logs := logs w @ [(ERROR, ''Caught socket exception : '' @ py_str e)]\<rparr>))
           else (Inl e, (s, w\<lparr>wire := wire w @ replicate (Suc k) (Sendp (interface s) p)\<rparr>)))"
    by (simp add: send_ntimes_def l after_raise_def log_msg_def)
  show "send_receive_ntimes E (Some p) n i (s, w)
        = (if is_socket_error e
           then (Inr (), (s, w\<lparr>wire := wire w @ replicate (Suc k) (Srp1 (interface s) p i),
                   logs := logs w @ [(ERROR, ''Caught socket exception : '' @ py_str e)]\<rparr>))
           else (Inl e, (s, w\<lparr>wire := wire w @ replicate (Suc k) (Srp1 (interface s) p i)\<rparr>)))"
    by (simp add: send_receive_ntimes_def l after_raise_def log_msg_def)
next
  assume a: "thread_send s = Some t \<and> procs w (t_pid t) \<in> {AtSend, AtSleep}"
  then show "background_run [Raised e] (s, w)
        = (s, set_pc t Failed (log_msg ERROR ''Exception when trying to send packet'' w))"
    by (auto simp: background_run_def worker_step_def)
qed

theorem exceptions_caught_witness:
  "send_ntimes (\<lambda>j. if j = 1 then (Raised (OtherException ''bad''), Done) else (Done, Done))
       (Some ''pkt'') 3 1 idle_state
     = (Inl (OtherException ''bad''),
        (fst idle_state, (snd idle_state)\<lparr>wire := [Sendp ''eth0'' ''pkt'']\<rparr>))
   \<and> send_receive_ntimes
       (\<lambda>j. if j = 1 then (Done, Raised (SocketError ''down'')) else (Done, Done))
       (Some ''pkt'') 3 1 idle_state
     = (Inr (), (fst idle_state, (snd idle_state)\<lparr>wire :=
          [Srp1 ''eth0'' ''pkt'' 1, Srp1 ''eth0'' ''pkt'' 1],
          logs := [(ERROR, ''Caught socket exception : down'')]\<rparr>))
   \<and> background_run [Raised (OtherException ''bad'')] (active_sender, example_world False AtSend)
     = (active_sender, set_pc example_worker Failed
          (log_msg ERROR ''Exception when trying to send packet'' (example_world False AtSend)))"
  using exceptions_caught [of 1 3 "\<lambda>j. if j = 1 then (Raised (OtherException ''bad''), Done) else (Done, Done)"
          "OtherException ''bad''" "''pkt''" 1 "fst idle_state" "snd idle_state"]
    exceptions_caught [of 1 3 "\<lambda>j. if j = 1 then (Done, Raised (SocketError ''down'')) else (Done, Done)"
          "SocketError ''down''" "''pkt''" 1 "fst idle_state" "snd idle_state"]
    exceptions_caught [where s = active_sender and t = example_worker
          and w = "example_world False AtSend" and e = "OtherException ''bad''"]
  by (simp add: idle_state_def PacketSender_init_def empty_world_def numeral_3_eq_3
        active_sender_def example_worker_def example_world_def)

section \<open>The claim on generate\_random\_password\<close>

lemma str_lower_WEP: "str_lower ''WEP'' = ''wep''"
  by (simp add: str_lower_def char_lower_def)

text \<open>
  Claim C9 as the code has it. The generators returning as many characters as asked for:
  a security mode equal to \<open>WEP\<close> up to case, with no length, gives the WEP default
  length; an explicit length \<open>N \<ge> 1\<close> gives a string of length \<open>N\<close> whatever the mode;
  neither a mode nor a length gives the minimum WPA-PSK length. An explicit length of \<open>0\<close>
  is false for \<open>if length:\<close> and counts as no length.
\<close>

theorem generate_random_password_length:
  assumes "\<forall>n. length (rand_hex_str U n) = nat n \<and> length (rand_ascii_str U n) = nat n"
  shows "(WEP_STRING C = str_lower ''WEP'' \<and> str_lower m = str_lower ''WEP'' \<longrightarrow>
            length (generate_random_password C U (Some m) None hex)
              = nat (WEP_DEFAULT_STR_LENGTH C))
       \<and> (1 \<le> N \<longrightarrow> int (length (generate_random_password C U sm (Some N) hex)) = N)
       \<and> length (generate_random_password C U None None hex) = nat (MIN_WPA_PSK_LENGTH C)
       \<and> generate_random_password C U sm (Some 0) hex = generate_random_password C U sm None hex"
proof (intro conjI impI)
  assume a: "WEP_STRING C = str_lower ''WEP'' \<and> str_lower m = str_lower ''WEP''"
  then have "m \<noteq> []" by (auto simp: str_lower_WEP str_lower_def)
  then show "length (generate_random_password C U (Some m) None hex)
               = nat (WEP_DEFAULT_STR_LENGTH C)"
    using a assms by (simp add: generate_random_password_def)
next
  assume "1 \<le> N"
  then show "int (length (generate_random_password C U sm (Some N) hex)) = N"
    using assms by (simp add: generate_random_password_def)
next
  show "length (generate_random_password C U None None hex) = nat (MIN_WPA_PSK_LENGTH C)"
    using assms by (simp add: generate_random_password_def)
next
  show "generate_random_password C U sm (Some 0) hex = generate_random_password C U sm None hex"
    by (simp add: generate_random_password_def)
qed

theorem generate_random_password_length_witness:
  "(\<forall>n. length (rand_hex_str example_utils n) = nat n
        \<and> length (rand_ascii_str example_utils n) = nat n)
   \<and> length (generate_random_password documented_constants example_utils (Some ''Wep'') None None) = 13
   \<and> length (generate_random_password documented_constants example_utils (Some ''WEP'') (Some 20) (Some True)) = 20
   \<and> length (generate_random_password documented_constants example_utils None None None) = 8"
proof -
  have g: "\<forall>n. length (rand_hex_str example_utils n) = nat n
             \<and> length (rand_ascii_str example_utils n) = nat n"
    by (simp add: example_utils_def)
  have l: "str_lower ''Wep'' = str_lower ''WEP''"
    by (simp add: str_lower_def char_lower_def)
  show ?thesis
    using g l
      generate_random_password_length [OF g, of documented_constants "''Wep''" None 20 "Some ''WEP''"]
      generate_random_password_length [OF g, of documented_constants "''Wep''" "Some True" 20 "Some ''WEP''"]
    by (simp add: documented_constants_def str_lower_WEP)
qed

theorem explicit_zero_length_counterexample:
  "length (generate_random_password documented_constants example_utils (Some ''WEP'') (Some 0) None) = 13
   \<and> length (generate_random_password documented_constants example_utils None (Some 0) None) = 8"
  by (simp add: generate_random_password_def documented_constants_def example_utils_def
        str_lower_def char_lower_def)

section \<open>The claims on the packet generators\<close>

lemma config_or_local_explicit:
  "config_params key \<noteq> Some (PyStr GET_FROM_LOCAL_INTERFACE) \<Longrightarrow>
   config_or_local config_params key local = getitem config_params key"
  by (auto simp: config_or_local_def bindE_def getitem_def split: option.splits)

text \<open>
  Claim C7. An \<open>ArpGenerator\<close> constructed with \<open>src_mac = aa:bb:cc:dd:ee:ff\<close>,
  \<open>src_ipv4 = 10.0.0.1\<close> and \<open>dst_ipv4 = 10.0.0.2\<close> returns from \<open>generate()\<close> the Ethernet
  layer with that source and the broadcast destination, over the ARP layer with
  \<open>op = who-has\<close>, \<open>pdst = 10.0.0.2\<close>, \<open>psrc = 10.0.0.1\<close>, \<open>hwdst = 00:00:00:00:00:00\<close> and
  \<open>hwsrc = aa:bb:cc:dd:ee:ff\<close>. The constructor reads \<open>config_params['interf']\<close> first:
  it succeeds when that key is there (whatever the interfaces are), and is a \<open>KeyError\<close>
  when it is not.
\<close>

theorem arp_generate_scenario:
  assumes "config_params ''src_mac'' = Some (PyStr ''aa:bb:cc:dd:ee:ff'')"
    and "config_params ''src_ipv4'' = Some (PyStr ''10.0.0.1'')"
    and "config_params ''dst_ipv4'' = Some (PyStr ''10.0.0.2'')"
  shows "(ArpGenerator_init env config_params = Inr g \<longrightarrow>
            fst (ArpGenerator_generate g (PyStr ''who-has'') PyNone PyNone PyNone PyNone PyNone)
              = [(''Ether'', [(''src'', PyStr ''aa:bb:cc:dd:ee:ff''),
                              (''dst'', PyStr ''ff:ff:ff:ff:ff:ff'')]),
                 (''ARP'', [(''op'', PyStr ''who-has''), (''pdst'', PyStr ''10.0.0.2''),
                            (''psrc'', PyStr ''10.0.0.1''),
                            (''hwdst'', PyStr ''00:00:00:00:00:00''),
                            (''hwsrc'', PyStr ''aa:bb:cc:dd:ee:ff'')])])
       \<and> (config_params ''interf'' \<noteq> None \<longrightarrow>
            ArpGenerator_init env config_params
              = Inr \<lparr>arp_packet = None, arp_src_mac = PyStr ''aa:bb:cc:dd:ee:ff'',
                     arp_dst_ipv4 = PyStr ''10.0.0.2'', arp_src_ipv4 = PyStr ''10.0.0.1''\<rparr>)
       \<and> (config_params ''interf'' = None \<longrightarrow>
            ArpGenerator_init env config_params = Inl (KeyError ''interf''))"
proof -
  have mac: "config_or_local config_params ''src_mac'' (get_if_hwaddr env i)
               = Inr (PyStr ''aa:bb:cc:dd:ee:ff'')" for i
    using assms(1)
    by (simp add: config_or_local_def bindE_def getitem_def GET_FROM_LOCAL_INTERFACE_def)
  have ip: "config_or_local config_params ''src_ipv4'' (get_if_addr env i)
               = Inr (PyStr ''10.0.0.1'')" for i
    using assms(2)
    by (simp add: config_or_local_def bindE_def getitem_def GET_FROM_LOCAL_INTERFACE_def)
  have init: "ArpGenerator_init env config_params =
      (case config_params ''interf'' of
         None \<Rightarrow> Inl (KeyError ''interf'')
       | Some i \<Rightarrow> Inr \<lparr>arp_packet = None, arp_src_mac = PyStr ''aa:bb:cc:dd:ee:ff'',
                     arp_dst_ipv4 = PyStr ''10.0.0.2'', arp_src_ipv4 = PyStr ''10.0.0.1''\<rparr>)"
    using assms(3)
    by (simp add: ArpGenerator_init_def mac ip bindE_def getitem_def split: option.split)
  show ?thesis
    by (auto simp: init ArpGenerator_generate_def or_default_def ARP_DST_def MAC_BROADCAST_def
          Let_def split: option.splits)
qed

theorem arp_generate_scenario_witness:
  "ArpGenerator_init no_iface_env arp_example_config
     = Inr \<lparr>arp_packet = None, arp_src_mac = PyStr ''aa:bb:cc:dd:ee:ff'',
            arp_dst_ipv4 = PyStr ''10.0.0.2'', arp_src_ipv4 = PyStr ''10.0.0.1''\<rparr>
   \<and> fst (ArpGenerator_generate
            \<lparr>arp_packet = None, arp_src_mac = PyStr ''aa:bb:cc:dd:ee:ff'',
             arp_dst_ipv4 = PyStr ''10.0.0.2'', arp_src_ipv4 = PyStr ''10.0.0.1''\<rparr>
            (PyStr ''who-has'') PyNone PyNone PyNone PyNone PyNone)
       = [(''Ether'', [(''src'', PyStr ''aa:bb:cc:dd:ee:ff''),
                       (''dst'', PyStr ''ff:ff:ff:ff:ff:ff'')]),
          (''ARP'', [(''op'', PyStr ''who-has''), (''pdst'', PyStr ''10.0.0.2''),
                     (''psrc'', PyStr ''10.0.0.1''),
                     (''hwdst'', PyStr ''00:00:00:00:00:00''),
                     (''hwsrc'', PyStr ''aa:bb:cc:dd:ee:ff'')])]"
  using arp_generate_scenario [of arp_example_config no_iface_env
          "\<lparr>arp_packet = None, arp_src_mac = PyStr ''aa:bb:cc:dd:ee:ff'',
            arp_dst_ipv4 = PyStr ''10.0.0.2'', arp_src_ipv4 = PyStr ''10.0.0.1''\<rparr>"]
  by (simp add: arp_example_config_def)

lemma generate_again:
  "generate_no_overrides lib lifetime g = Inr (p, g') \<Longrightarrow>
   g' = with_packet p g \<and> generate_no_overrides lib lifetime g' = Inr (p, g')"
proof (cases g)
  case (Arp x)
  assume "generate_no_overrides lib lifetime g = Inr (p, g')"
  with Arp show ?thesis
    by (auto simp: generate_no_overrides_def with_packet_def ArpGenerator_generate_def Let_def)
next
  case (DhcpOffer x)
  assume "generate_no_overrides lib lifetime g = Inr (p, g')"
  with DhcpOffer show ?thesis
    by (auto simp: generate_no_overrides_def with_packet_def DhcpOfferGenerator_generate_def
          Let_def bindE_def split: sum.splits)
next
  case (Ns x)
  assume "generate_no_overrides lib lifetime g = Inr (p, g')"
  with Ns show ?thesis
    by (auto simp: generate_no_overrides_def with_packet_def NsGenerator_generate_def
          Let_def bindE_def split: sum.splits)
next
  case (Ra x)
  assume "generate_no_overrides lib lifetime g = Inr (p, g')"
  with Ra show ?thesis
    by (auto simp: generate_no_overrides_def with_packet_def RaGenerator_generate_def Let_def)
next
  case (Ping6 x)
  assume "generate_no_overrides lib lifetime g = Inr (p, g')"
  with Ping6 show ?thesis
    by (auto simp: generate_no_overrides_def with_packet_def Ping6Generator_generate_def Let_def)
next
  case (Ping4 x)
  assume "generate_no_overrides lib lifetime g = Inr (p, g')"
  with Ping4 show ?thesis
    by (auto simp: generate_no_overrides_def with_packet_def Ping4Generator_generate_def Let_def)
next
  case (Mdns6 x)
  assume "generate_no_overrides lib lifetime g = Inr (p, g')"
  with Mdns6 show ?thesis
    by (auto simp: generate_no_overrides_def with_packet_def Mdns6Generator_generate_def Let_def)
next
  case (Mdns4 x)
  assume "generate_no_overrides lib lifetime g = Inr (p, g')"
  with Mdns4 show ?thesis
    by (auto simp: generate_no_overrides_def with_packet_def Mdns4Generator_generate_def Let_def)
next
  case (Dot3 x)
  assume "generate_no_overrides lib lifetime g = Inr (p, g')"
  with Dot3 show ?thesis
    by (auto simp: generate_no_overrides_def with_packet_def Dot3Generator_generate_def
          build_ether_def Let_def)
qed

lemma construct_explicit:
  assumes "explicit_config config_params"
  shows "construct c env config_params = construct c env' config_params"
proof -
  have mac: "config_or_local config_params ''src_mac'' l = getitem config_params ''src_mac''" for l
    using assms by (intro config_or_local_explicit) (simp add: explicit_config_def)
  have v4: "config_or_local config_params ''src_ipv4'' l = getitem config_params ''src_ipv4''" for l
    using assms by (intro config_or_local_explicit) (simp add: explicit_config_def)
  have v6: "config_or_local config_params ''src_ipv6'' l = getitem config_params ''src_ipv6''" for l
    using assms by (intro config_or_local_explicit) (simp add: explicit_config_def)
  show ?thesis
    by (cases c)
      (simp_all add: construct_def ArpGenerator_init_def DhcpOfferGenerator_init_def
        NsGenerator_init_def RaGenerator_init_def Ping6Generator_init_def
        Ping4Generator_init_def Mdns6Generator_init_def Mdns4Generator_init_def
        Dot3Generator_init_def mac v4 v6)
qed

text \<open>
  Claim C8. On any generator instance, a call of \<open>generate()\<close> with no overrides that
  returns a packet leaves the instance as it was but for the cached \<open>packet\<close> field, and
  the next such call on that instance returns the same packet (the same layers with the
  same field values: the bytes are scapy's rendering of them) and leaves the instance as
  it is. The same holds for the two other methods of \<open>Dot3Generator\<close>. And a generator
  constructed from a configuration with no \<open>get_local\<close> field does not depend on the
  local interfaces.
\<close>

theorem generate_deterministic:
  "(generate_no_overrides lib lifetime g = Inr (p, g') \<longrightarrow>
      g' = with_packet p g \<and> generate_no_overrides lib lifetime g' = Inr (p, g'))
   \<and> (explicit_config config_params \<longrightarrow>
      construct c env config_params = construct c env' config_params)
   \<and> Dot3Generator_generate_llc (snd (Dot3Generator_generate_llc x eth_dst dsap ssap ctrl))
        eth_dst dsap ssap ctrl
      = Dot3Generator_generate_llc x eth_dst dsap ssap ctrl
   \<and> Dot3Generator_generate_snap
        (snd (Dot3Generator_generate_snap x eth_dst dsap ssap ctrl oui code))
        eth_dst dsap ssap ctrl oui code
      = Dot3Generator_generate_snap x eth_dst dsap ssap ctrl oui code"
proof (intro conjI impI)
  assume "generate_no_overrides lib lifetime g = Inr (p, g')"
  from generate_again [OF this]
  show "g' = with_packet p g" and "generate_no_overrides lib lifetime g' = Inr (p, g')"
    by blast+
next
  assume "explicit_config config_params"
  then show "construct c env config_params = construct c env' config_params"
    by (rule construct_explicit)
next
  show "Dot3Generator_generate_llc (snd (Dot3Generator_generate_llc x eth_dst dsap ssap ctrl))
          eth_dst dsap ssap ctrl
        = Dot3Generator_generate_llc x eth_dst dsap ssap ctrl"
    by (simp add: Dot3Generator_generate_llc_def build_ether_def Let_def)
next
  show "Dot3Generator_generate_snap
          (snd (Dot3Generator_generate_snap x eth_dst dsap ssap ctrl oui code))
          eth_dst dsap ssap ctrl oui code
        = Dot3Generator_generate_snap x eth_dst dsap ssap ctrl oui code"
    by (simp add: Dot3Generator_generate_snap_def build_ether_def Let_def)
qed

theorem generate_deterministic_witness:
  "generate_no_overrides no_conv_lib PyNone
       (Arp \<lparr>arp_packet = None, arp_src_mac = PyStr ''aa:bb:cc:dd:ee:ff'',
              arp_dst_ipv4 = PyStr ''10.0.0.2'', arp_src_ipv4 = PyStr ''10.0.0.1''\<rparr>)
     = generate_no_overrides no_conv_lib PyNone
         (Arp \<lparr>arp_packet = Some
                  [(''Ether'', [(''src'', PyStr ''aa:bb:cc:dd:ee:ff''),
                                (''dst'', PyStr ''ff:ff:ff:ff:ff:ff'')]),
                   (''ARP'', [(''op'', PyStr ''who-has''), (''pdst'', PyStr ''10.0.0.2''),
                              (''psrc'', PyStr ''10.0.0.1''),
                              (''hwdst'', PyStr ''00:00:00:00:00:00''),
                              (''hwsrc'', PyStr ''aa:bb:cc:dd:ee:ff'')])],
                arp_src_mac = PyStr ''aa:bb:cc:dd:ee:ff'',
                arp_dst_ipv4 = PyStr ''10.0.0.2'', arp_src_ipv4 = PyStr ''10.0.0.1''\<rparr>)
   \<and> explicit_config arp_example_config
   \<and> construct ArpClass no_iface_env arp_example_config
     = construct ArpClass example_iface_env arp_example_config"
proof -
  let ?g = "Arp \<lparr>arp_packet = None, arp_src_mac = PyStr ''aa:bb:cc:dd:ee:ff'',
              arp_dst_ipv4 = PyStr ''10.0.0.2'', arp_src_ipv4 = PyStr ''10.0.0.1''\<rparr>"
  let ?p = "[(''Ether'', [(''src'', PyStr ''aa:bb:cc:dd:ee:ff''),
                          (''dst'', PyStr ''ff:ff:ff:ff:ff:ff'')]),
             (''ARP'', [(''op'', PyStr ''who-has''), (''pdst'', PyStr ''10.0.0.2''),
                        (''psrc'', PyStr ''10.0.0.1''),
                        (''hwdst'', PyStr ''00:00:00:00:00:00''),
                        (''hwsrc'', PyStr ''aa:bb:cc:dd:ee:ff'')])]"
  have first: "generate_no_overrides no_conv_lib PyNone ?g = Inr (?p, with_packet ?p ?g)"
    by (simp add: generate_no_overrides_def with_packet_def ArpGenerator_generate_def
          or_default_def ARP_DST_def MAC_BROADCAST_def Let_def)
  have ex: "explicit_config arp_example_config"
    by (simp add: explicit_config_def arp_example_config_def GET_FROM_LOCAL_INTERFACE_def)
  from generate_deterministic [where lib = no_conv_lib and lifetime = PyNone and g = ?g
         and p = ?p and g' = "with_packet ?p ?g" and config_params = arp_example_config
         and c = ArpClass and env = no_iface_env and env' = example_iface_env] first ex
  show ?thesis
    by (simp add: with_packet_def)
qed

end
